theory Spec2Isabelle
  imports Main "HOL-Library.List_Lexorder"
begin

section \<open>Python values and failures\<close>

text \<open>
  The three scripts of the repository are Python programs. Their exceptions are values of
  the type \<open>error\<close>; a function that can raise returns \<open>error + 'a\<close> with \<open>Inl\<close> the
  exception. The constructors keep Python's class names; the argument of \<open>KeyError\<close> is the
  missing key, the argument of \<open>ConnectionError\<close> and of \<open>HTTPError\<close> (the exception
  \<open>requests.HTTPError\<close> that the \<open>elmclient\<close> library lets through) is the status code of
  the response, the argument of the others is the message (without the interpolated values).
\<close>

datatype error =
    IndexError
  | KeyError string
  | RecursionError
  | ValueError string
  | ConnectionError int
  | HTTPError int
  | PyException string

subsection \<open>Decimal rendering of integers and \<open>str.join\<close>\<close>

text \<open>
  An f-string \<open>f"{n}"\<close> of a Python integer is its decimal numeral, with a leading minus
  sign for a negative one.
\<close>

definition digit_char :: "nat \<Rightarrow> char" where
  "digit_char d = ''0123456789'' ! d"

fun str_nat :: "nat \<Rightarrow> string" where
  "str_nat n = (if n < 10 then [digit_char n] else str_nat (n div 10) @ [digit_char (n mod 10)])"

declare str_nat.simps [simp del]

definition str_int :: "int \<Rightarrow> string" where
  "str_int i = (if i < 0 then CHR ''-'' # str_nat (nat (- i)) else str_nat (nat i))"

text \<open>\<open>sep.join(xs)\<close>\<close>

fun join :: "string \<Rightarrow> string list \<Rightarrow> string" where
  "join sep [] = []"
| "join sep [x] = x"
| "join sep (x # y # ys) = x @ sep @ join sep (y # ys)"

section \<open>The section number of a heading level (\<open>getsectionnumber\<close>)\<close>

text \<open>
  \<^verbatim>\<open>
  def getsectionnumber( headinglevel):
      hs = []
      for hn,tn in headinglevel:
          if tn:
              hs.append( f"{hn}-{tn}" )
          else:
              hs.append( f"{hn}" )
      h = ".".join(hs)
      return h
  \<close>
  \<open>headinglevel\<close> is a Python list of two-element lists of integers, the outermost level
  first. The loop is \<open>getsectionnumber_loop\<close>, with \<open>hs\<close> as its accumulator.
\<close>

fun getsectionnumber_loop :: "(int \<times> int) list \<Rightarrow> string list \<Rightarrow> string list" where
  "getsectionnumber_loop [] hs = hs"
| "getsectionnumber_loop ((hn, tn) # rest) hs =
     getsectionnumber_loop rest
       (hs @ [if tn \<noteq> 0 then str_int hn @ ''-'' @ str_int tn else str_int hn])"

definition getsectionnumber :: "(int \<times> int) list \<Rightarrow> string" where
  "getsectionnumber headinglevel = join ''.'' (getsectionnumber_loop headinglevel [])"

text \<open>
  The rendering as the specification words it: each level contributes its heading count,
  followed by a dash and its sub-count when the sub-count is not zero, and the levels are
  joined by dots, the outermost first.
\<close>

definition level_label :: "int \<times> int \<Rightarrow> string" where
  "level_label l = str_int (fst l) @ (if snd l = 0 then [] else ''-'' @ str_int (snd l))"

fun dot_joined_label :: "(int \<times> int) list \<Rightarrow> string" where
  "dot_joined_label [] = []"
| "dot_joined_label [l] = level_label l"
| "dot_joined_label (l # m # ls) = level_label l @ ''.'' @ dot_joined_label (m # ls)"

section \<open>The structure document as an element tree\<close>

text \<open>
  The RDF/XML form of a module structure is an \<open>lxml\<close> element tree: every element has a
  tag, attributes, text and an ordered list of child elements. Tags and attribute names
  are written with their namespace prefix (\<open>rm_modules:Binding\<close>), as the scripts' path
  expressions write them; the resolution of prefixes to namespace URIs is not modelled.
\<close>

datatype xml =
  Element (tag: string) (attrib: "(string \<times> string) list") (etext: string) (children: "xml list")

text \<open>
  A reference to an element inside a document is its position: the list of child indexes
  that leads to it from the document's root element. \<open>subtree\<close> dereferences a position.
\<close>

fun subtree :: "nat list \<Rightarrow> xml \<Rightarrow> xml option" where
  "subtree [] e = Some e"
| "subtree (i # p) e = (if i < length (children e) then subtree p (children e ! i) else None)"

text \<open>
  \<open>rdfxml.xml_find_elements(doc, path)\<close> belongs to the \<open>elmclient\<close> library and hands the
  path to \<open>findall\<close> of the element tree. For a path of child steps \<open>t1/t2/.../tn\<close>
  that is: the children of the context element with tag \<open>t1\<close>, their children with tag
  \<open>t2\<close>, and so on, in document order. \<open>findall\<close> returns the positions of the matches;
  \<open>collect\<close> is the loop over the children of one element, \<open>i\<close> the index of the next child.
\<close>

primrec collect :: "string \<Rightarrow> (xml \<Rightarrow> nat list list) \<Rightarrow> nat \<Rightarrow> xml list \<Rightarrow> nat list list" where
  "collect t f i [] = []"
| "collect t f i (c # cs) =
     (if tag c = t then map ((#) i) (f c) else []) @ collect t f (Suc i) cs"

primrec findall :: "string list \<Rightarrow> xml \<Rightarrow> nat list list" where
  "findall [] e = [[]]"
| "findall (t # ts) e = collect t (findall ts) 0 (children e)"

text \<open>
  \<open>target.append(new)\<close> for the element \<open>target\<close> at position \<open>p\<close> of a document: the new
  element becomes the last child of \<open>target\<close>. (A position that \<open>findall\<close> returned always
  denotes an element; for any other position the document is returned unchanged.)
\<close>

fun append_at :: "nat list \<Rightarrow> xml \<Rightarrow> xml \<Rightarrow> xml" where
  "append_at [] new (Element t a x cs) = Element t a x (cs @ [new])"
| "append_at (i # p) new (Element t a x cs) =
     Element t a x (if i < length cs then cs[i := append_at p new (cs ! i)] else cs)"

text \<open>
  The tags met along a position, used to state where a position lies: \<open>path_tags p e\<close> is
  \<open>Some ts\<close> when \<open>p\<close> denotes an element of \<open>e\<close> and \<open>ts\<close> are the tags of the elements on
  the way down to it (without the tag of \<open>e\<close> itself).
\<close>

fun path_tags :: "nat list \<Rightarrow> xml \<Rightarrow> string list option" where
  "path_tags [] e = Some []"
| "path_tags (i # p) e =
     (if i < length (children e)
      then map_option ((#) (tag (children e ! i))) (path_tags p (children e ! i))
      else None)"

section \<open>Locating the insertion slot\<close>

text \<open>
  \<open>CreateAndBindRequirement.For_GeminiReturnV4.py\<close>, \<open>bind_artifact_to_module\<close>:
  \<^verbatim>\<open>
  insertion_point_xpath = 'rm_modules:Binding/rm_modules:childBindings/rm_modules:Binding/rm_modules:childBindings'
  insertion_point = rdfxml.xml_find_elements(structure_xml, insertion_point_xpath)
  if not insertion_point:
       raise ValueError(f"Konnte keine gueltige Einfuegeposition mit XPath ... finden. ...")
  ...
  insertion_point[0].append(new_binding_xml)
  \<close>
  \<open>CreateAndBindRequirement.For_GeminiReturnV2.py\<close>, \<open>bind_artifact_to_module_structure\<close>:
  \<^verbatim>\<open>
  first_child_bindings = rdfxml.xml_find_elements(modstructure_x, 'rm_modules:Binding/rm_modules:childBindings')[0]
  \<close>
  Indexing an empty list with \<open>[0]\<close> raises \<open>IndexError\<close>.
\<close>

definition insertion_point_xpath :: "string list" where
  "insertion_point_xpath =
     [''rm_modules:Binding'', ''rm_modules:childBindings'',
      ''rm_modules:Binding'', ''rm_modules:childBindings'']"

definition first_child_bindings_xpath :: "string list" where
  "first_child_bindings_xpath = [''rm_modules:Binding'', ''rm_modules:childBindings'']"

definition insertion_point_V4 :: "xml \<Rightarrow> error + nat list" where
  "insertion_point_V4 structure_xml =
     (case findall insertion_point_xpath structure_xml of
        [] \<Rightarrow> Inl (ValueError ''Konnte keine gueltige Einfuegeposition finden'')
      | p # _ \<Rightarrow> Inr p)"

definition first_child_bindings_V2 :: "xml \<Rightarrow> error + nat list" where
  "first_child_bindings_V2 modstructure_x =
     (case findall first_child_bindings_xpath modstructure_x of
        [] \<Rightarrow> Inl IndexError
      | p # _ \<Rightarrow> Inr p)"

text \<open>
  The binding element both scripts build for the new artifact (\<open>rdf:about\<close> is empty in
  V2 and V4):
  \<^verbatim>\<open>
  <rm_modules:Binding ... rdf:about="">
      <oslc_config:component rdf:resource="{component.project_uri}"/>
      <rm_modules:boundArtifact rdf:resource="{artifact_to_bind_uri}"/>
      <rm_modules:module rdf:resource="{module_uri}"/>
      <rm_modules:childBindings rdf:resource="http://www.w3.org/1999/02/22-rdf-syntax-ns#nil"/>
  </rm_modules:Binding>
  \<close>
\<close>

definition new_binding_xml :: "string \<Rightarrow> string \<Rightarrow> string \<Rightarrow> string \<Rightarrow> xml" where
  "new_binding_xml about project_uri artifact_to_bind_uri module_uri =
     Element ''rm_modules:Binding'' [(''rdf:about'', about)] []
       [Element ''oslc_config:component'' [(''rdf:resource'', project_uri)] [] [],
        Element ''rm_modules:boundArtifact'' [(''rdf:resource'', artifact_to_bind_uri)] [] [],
        Element ''rm_modules:module'' [(''rdf:resource'', module_uri)] [] [],
        Element ''rm_modules:childBindings''
          [(''rdf:resource'', ''http://www.w3.org/1999/02/22-rdf-syntax-ns#nil'')] [] []]"

section \<open>The structure update as the scripts perform it\<close>

text \<open>
  The server is an external collaborator. Of its behaviour the model keeps what the
  scripts read: the \<open>k\<close>-th GET of the structure resource of one run returns a document
  and its ETag (\<open>fetch_structure srv k\<close>), and a PUT of a document with an \<open>If-Match\<close>
  header is answered by a response with a status code and an optional \<open>Location\<close> header
  (\<open>submit_structure srv data etag\<close>). The scripts send the PUT through the \<open>elmclient\<close>
  library (\<open>execute_put_rdf_xml\<close>, \<open>execute_post_rdf_xml\<close> and \<open>execute_post_json\<close> with
  \<open>put=True\<close>), and the library call does not return a response with an error status: for
  a status from 400 to 599 it raises \<open>requests.HTTPError\<close> (\<open>execute_put\<close>), so a script's
  own status check only ever sees the other statuses. A run is observed through the
  requests it sends on the structure resource, in order, and the waits on a tracker
  (\<open>wait_for_tracker\<close>); the lookups of the module, of folders and of artifacts are not
  part of the trace.
\<close>

record response =
  status_code :: int
  location :: "string option"

datatype 'd request =
    GetStructure
  | PutStructure 'd string
  | WaitForTracker string

record 'd server =
  fetch_structure :: "nat \<Rightarrow> 'd \<times> string"
  submit_structure :: "'d \<Rightarrow> string \<Rightarrow> response"


definition execute_put :: "'d server \<Rightarrow> 'd \<Rightarrow> string \<Rightarrow> error + response" where
  "execute_put srv data etag =
     (let response = submit_structure srv data etag in
      if 400 \<le> status_code response \<and> status_code response < 600
      then Inl (HTTPError (status_code response))
      else Inr response)"



section \<open>The flat-list form of the structure\<close>

text \<open>
  The JSON form is a list of records. A record is a Python dictionary; the keys \<open>uri\<close> and
  \<open>childBindings\<close> are in every record the scripts handle, the others are optional
  (\<open>None\<close>: the key is absent, and reading it raises \<open>KeyError\<close>). The record the script
  itself adds has neither \<open>isHeading\<close> nor \<open>isStructureRoot\<close>.
\<close>

record jbinding =
  uri :: string
  binding_type :: "string option"
  component :: "string option"
  isStructureRoot :: "bool option"
  isHeading :: "bool option"
  binding_module :: "string option"
  boundArtifact :: "string option"
  childBindings :: "string list"

text \<open>
  \<open>CreateAndBindRequirement.For_Gemini.py\<close>, the JSON branch of the main program:
  \<^verbatim>\<open>
  if not modstructure_j[0]["isStructureRoot"]:
      raise Exception( "Root not at start of structure!" )
  ...
  tempbinding_u = "https://clmwb.com:9444/rdm/resources/_4sscEb43EeeD0-df1VhHuw/structure#1"
  newbinding = { "uri": tempbinding_u, "component": comp_u, "type": "dng_module:Binding",
                 "module": themodule_u, "boundArtifact": toinsert_u, "childBindings": [] }
  # this assumes the root is the first entry!
  modstructure_j[0]["childBindings"].append(tempbinding_u)
  modstructure_j.append(newbinding)
  \<close>
\<close>

definition tempbinding_u :: string where
  "tempbinding_u = ''https://clmwb.com:9444/rdm/resources/_4sscEb43EeeD0-df1VhHuw/structure#1''"

definition newbinding :: "string \<Rightarrow> string \<Rightarrow> string \<Rightarrow> jbinding" where
  "newbinding comp_u themodule_u toinsert_u =
     \<lparr>uri = tempbinding_u, binding_type = Some ''dng_module:Binding'', component = Some comp_u,
      isStructureRoot = None, isHeading = None, binding_module = Some themodule_u,
      boundArtifact = Some toinsert_u, childBindings = []\<rparr>"

definition root_first_check :: "jbinding list \<Rightarrow> error + unit" where
  "root_first_check modstructure_j =
     (case modstructure_j of
        [] \<Rightarrow> Inl IndexError
      | r0 # _ \<Rightarrow>
          (case isStructureRoot r0 of
             None \<Rightarrow> Inl (KeyError ''isStructureRoot'')
           | Some flag \<Rightarrow>
               if \<not> flag then Inl (PyException ''Root not at start of structure!'')
               else Inr ()))"

definition append_newbinding :: "jbinding \<Rightarrow> jbinding list \<Rightarrow> error + jbinding list" where
  "append_newbinding nb modstructure_j =
     (case modstructure_j of
        [] \<Rightarrow> Inl IndexError
      | r0 # rest \<Rightarrow>
          Inr ((r0\<lparr>childBindings := childBindings r0 @ [tempbinding_u]\<rparr> # rest) @ [nb]))"

section \<open>Walking the flat-list structure and numbering the outline\<close>

text \<open>
  A generator is modelled by what it hands to its consumer: the list of the items it
  yields and, when it stops with an exception, that exception. \<open>gen_then g h\<close> runs \<open>h\<close>
  after \<open>g\<close> unless \<open>g\<close> raised; \<open>gen_concat\<close> is \<open>for ... : yield from ...\<close>.
\<close>

type_synonym 'a gen = "'a list \<times> error option"

definition gen_then :: "'a gen \<Rightarrow> 'a gen \<Rightarrow> 'a gen" where
  "gen_then g h = (case snd g of None \<Rightarrow> (fst g @ fst h, snd h) | Some e \<Rightarrow> g)"

fun gen_concat :: "'a gen list \<Rightarrow> 'a gen" where
  "gen_concat [] = ([], None)"
| "gen_concat (g # gs) = gen_then g (gen_concat gs)"

text \<open>
  \<^verbatim>\<open>
  def json_structure_walk(rooturi,entries):
      def recursiveiterator(uri,suppressyield=False):
          if not suppressyield:
              yield ("start",entries[uri])
          yield ("startChildren",entries[uri])
          for child in list(entries[uri]["childBindings"]):
              yield from recursiveiterator(child)
          yield ("endChildren",entries[uri])
          if not suppressyield:
              yield ("end",entries[uri])
      def iterator():
          yield from recursiveiterator( rooturi, suppressyield=True )
      return iterator
  \<close>
  \<open>entries\<close> is a dictionary from URIs to records, so the recursion follows references and
  need not end on a table with a cycle: Python stops it with \<open>RecursionError\<close> when the
  nesting of generators reaches the interpreter's recursion limit. The first argument
  \<open>limit\<close> is the number of nested generators the interpreter still allows. A URI that is
  not a key of \<open>entries\<close> raises \<open>KeyError\<close>.
\<close>

fun recursiveiterator ::
  "nat \<Rightarrow> (string \<rightharpoonup> jbinding) \<Rightarrow> bool \<Rightarrow> string \<Rightarrow> (string \<times> jbinding) gen" where
  "recursiveiterator 0 entries suppressyield u = ([], Some RecursionError)"
| "recursiveiterator (Suc limit) entries suppressyield u =
     (case entries u of
        None \<Rightarrow> ([], Some (KeyError u))
      | Some el \<Rightarrow>
          gen_then ((if suppressyield then [] else [(''start'', el)]) @ [(''startChildren'', el)], None)
         (gen_then (gen_concat (map (recursiveiterator limit entries False) (childBindings el)))
            ([(''endChildren'', el)] @ (if suppressyield then [] else [(''end'', el)]), None)))"

definition json_structure_walk ::
  "nat \<Rightarrow> string \<Rightarrow> (string \<rightharpoonup> jbinding) \<Rightarrow> (string \<times> jbinding) gen" where
  "json_structure_walk limit rooturi entries = recursiveiterator limit entries True rooturi"

text \<open>
  The loop that consumes the walk (JSON branch of the main program):
  \<^verbatim>\<open>
  level = 0
  headinglevel = []
  for event,el in it():
      if event == "startChildren":
          level += 1
          headinglevel.append([0,0])
      if event == "endChildren":
          level -= 1
          headinglevel.pop()
      isheading = el["isHeading"]
      if event=="start":
          ba_u = el["uri"]
          if ba_u.startswith( c.app.baseurl ):
              req_x = c.execute_get_rdf_xml( ba_u, ... )
              summary = rdfxml.xmlrdf_get_resource_text( req_x,'.//dcterms:title')
              id = rdfxml.xmlrdf_get_resource_text( req_x,'.//dcterms:identifier')
          else:
              ...
              raise Exception( f"Unexpected: No or invalid artifact URI {ba_u}" )
          if isheading:
              headinglevel[-1][0] += 1
              headinglevel[-1][1] = 0
          else:
              headinglevel[-1][1] += 1
          print( f"{id}{'    '*level}", end="" )
          if True or isheading:
              h = getsectionnumber(headinglevel)
              print( f"{h}", end="" )
          print( f"  {summary}" )
  \<close>
  \<open>headinglevel\<close> is a Python list used as a stack, its top the last element;
  \<open>headinglevel[-1]\<close> and \<open>headinglevel.pop()\<close> raise \<open>IndexError\<close> on the empty list.
  Each printed line is kept as an \<open>outline_row\<close>; \<open>print_row\<close> is the line's text. The
  title and identifier of an artifact come from the server: \<open>artifact_info u\<close> is the pair
  (title, identifier) it returns for the URI \<open>u\<close>.
\<close>

record outline_row =
  row_id :: string
  row_level :: int
  row_section :: string
  row_summary :: string

definition print_row :: "outline_row \<Rightarrow> string" where
  "print_row r =
     row_id r @ replicate (nat (4 * row_level r)) CHR '' '' @ row_section r @ ''  '' @ row_summary r"

record walk_state =
  level :: int
  headinglevel :: "(int \<times> int) list"
  printed :: "outline_row list"

definition startswith :: "string \<Rightarrow> string \<Rightarrow> bool" where
  "startswith s p = (take (length p) s = p)"

text \<open>The update of the counters at the top of the stack for one visited node.\<close>

definition count_node :: "bool \<Rightarrow> (int \<times> int) list \<Rightarrow> error + (int \<times> int) list" where
  "count_node isheading hl =
     (if hl = [] then Inl IndexError
      else Inr (butlast hl @
             [if isheading then (fst (last hl) + 1, 0) else (fst (last hl), snd (last hl) + 1)]))"

text \<open>One iteration of the loop, for the item \<open>(event, el)\<close>.\<close>

definition outline_step ::
  "string \<Rightarrow> (string \<Rightarrow> string \<times> string) \<Rightarrow> string \<Rightarrow> jbinding \<Rightarrow> walk_state \<Rightarrow> error + walk_state" where
  "outline_step baseurl artifact_info event el st =
     (let st1 = (if event = ''startChildren''
                 then st\<lparr>level := level st + 1, headinglevel := headinglevel st @ [(0, 0)]\<rparr>
                 else st)
      in case (if event = ''endChildren''
               then (if headinglevel st1 = [] then Inl IndexError
                     else Inr (st1\<lparr>level := level st1 - 1,
                                    headinglevel := butlast (headinglevel st1)\<rparr>))
               else Inr st1) of
           Inl e \<Rightarrow> Inl e
         | Inr st2 \<Rightarrow>
             (case isHeading el of
                None \<Rightarrow> Inl (KeyError ''isHeading'')
              | Some isheading \<Rightarrow>
                  if event = ''start'' then
                    (if \<not> startswith (uri el) baseurl
                     then Inl (PyException ''Unexpected: No or invalid artifact URI'')
                     else (case count_node isheading (headinglevel st2) of
                             Inl e \<Rightarrow> Inl e
                           | Inr hl \<Rightarrow>
                               Inr (st2\<lparr>headinglevel := hl,
                                         printed := printed st2 @
                                           [\<lparr>row_id = snd (artifact_info (uri el)),
                                             row_level = level st2,
                                             row_section = getsectionnumber hl,
                                             row_summary = fst (artifact_info (uri el))\<rparr>]\<rparr>)))
                  else Inr st2))"

text \<open>
  The loop over the yielded items. When an iteration raises, the loop ends with the state
  before that iteration (its printed rows are the rows printed so far) and the exception.
\<close>

fun outline_loop ::
  "string \<Rightarrow> (string \<Rightarrow> string \<times> string) \<Rightarrow> (string \<times> jbinding) list \<Rightarrow> walk_state
     \<Rightarrow> walk_state \<times> error option" where
  "outline_loop baseurl artifact_info [] st = (st, None)"
| "outline_loop baseurl artifact_info ((event, el) # rest) st =
     (case outline_step baseurl artifact_info event el st of
        Inl e \<Rightarrow> (st, Some e)
      | Inr st' \<Rightarrow> outline_loop baseurl artifact_info rest st')"

text \<open>
  \<^verbatim>\<open>
  entries = {}
  for s in modstructure_j:
      entries[s["uri"]] = s
  modroot = entries[structure_u]
  it = json_structure_walk(structure_u,entries )
  \<close>
  \<open>print_outline\<close> is this part of the main program together with the loop: it returns the
  rows printed and the exception that ended the run, if any. The generator is lazy, so an
  exception of the loop on an item comes before an exception of the generator after it.
\<close>

definition scan_entries :: "jbinding list \<Rightarrow> (string \<rightharpoonup> jbinding)" where
  "scan_entries modstructure_j = fold (\<lambda>s entries. entries(uri s \<mapsto> s)) modstructure_j Map.empty"

definition print_outline ::
  "nat \<Rightarrow> string \<Rightarrow> (string \<Rightarrow> string \<times> string) \<Rightarrow> string \<Rightarrow> jbinding list
     \<Rightarrow> outline_row list \<times> error option" where
  "print_outline limit baseurl artifact_info structure_u modstructure_j =
     (let entries = scan_entries modstructure_j in
      case entries structure_u of
        None \<Rightarrow> ([], Some (KeyError structure_u))
      | Some modroot \<Rightarrow>
          (let (events, stopped) = json_structure_walk limit structure_u entries;
               (st, failed) = outline_loop baseurl artifact_info events
                                \<lparr>level = 0, headinglevel = [], printed = []\<rparr>
           in (printed st, case failed of Some e \<Rightarrow> Some e | None \<Rightarrow> stopped)))"

section \<open>The JSON branch of the main program\<close>

text \<open>
  \<open>CreateAndBindRequirement.For_Gemini.py\<close> sets \<open>format = "JSON"\<close> as a constant, so its
  main program always takes the JSON branch (the RDF/XML branch is never reached, and its
  test \<open>theid>0\<close> compares an element with a number). After the artifact has been created:
  \<^verbatim>\<open>
  modstructure_j = c.execute_get_json(structure_u, ...)
  if (len(theid.text)>0):
      if not modstructure_j[0]["isStructureRoot"]:
          raise Exception( "Root not at start of structure!" )
      response,etag = c.execute_get_rdf_xml( structure_u, ..., return_etag=True, ...)
      ... (newbinding and the two appends, see above)
      response = c.execute_post_json( structure_u, data=modstructure_j, put=True, cacheable=False,
                     headers={'If-Match':etag, ...}, ...)
      print( f"{response.status_code}" )
      location = response.headers.get('Location')
      if response.status_code == 202 and location is not None:
          result = c.wait_for_tracker( location, interval=1.0, progressbar=True, msg=f"Updating Structure")
          time.sleep( 0.5 )
      modstructure_j = c.execute_get_json(structure_u, ...)
      sys.exit(0)
  ... (the entries, the walk and the loop, see above)
  \<close>
  \<open>theid_text\<close> is the identifier of the new artifact (\<open>theid.text\<close>). A run is the trace of
  requests, the rows printed, and the exception that ended it (\<open>None\<close>: the program ended
  normally, also through \<open>sys.exit(0)\<close>).
\<close>

record 'd run =
  sent :: "'d request list"
  rows_printed :: "outline_row list"
  raised :: "error option"

definition main_json ::
  "jbinding list server \<Rightarrow> nat \<Rightarrow> string \<Rightarrow> (string \<Rightarrow> string \<times> string) \<Rightarrow> string
     \<Rightarrow> string \<Rightarrow> string \<Rightarrow> string \<Rightarrow> string \<Rightarrow> jbinding list run" where
  "main_json srv limit baseurl artifact_info theid_text comp_u themodule_u toinsert_u structure_u =
     (let modstructure_j = fst (fetch_structure srv 0) in
      if length theid_text > 0 then
        (case root_first_check modstructure_j of
           Inl e \<Rightarrow> \<lparr>sent = [GetStructure], rows_printed = [], raised = Some e\<rparr>
         | Inr _ \<Rightarrow>
             (let etag = snd (fetch_structure srv 1) in
              case append_newbinding (newbinding comp_u themodule_u toinsert_u) modstructure_j of
                Inl e \<Rightarrow> \<lparr>sent = [GetStructure, GetStructure], rows_printed = [], raised = Some e\<rparr>
              | Inr data \<Rightarrow>
                  (case execute_put srv data etag of
                     Inl e \<Rightarrow>
                       \<lparr>sent = [GetStructure, GetStructure, PutStructure data etag],
                        rows_printed = [], raised = Some e\<rparr>
                   | Inr response \<Rightarrow>
                       (let waits = (case location response of
                                       Some loc \<Rightarrow>
                                         if status_code response = 202 then [WaitForTracker loc]
                                         else []
                                     | None \<Rightarrow> [])
                        in \<lparr>sent = [GetStructure, GetStructure, PutStructure data etag] @ waits @
                                    [GetStructure],
                             rows_printed = [], raised = None\<rparr>))))
      else
        (case print_outline limit baseurl artifact_info structure_u modstructure_j of
           (rows, failed) \<Rightarrow> \<lparr>sent = [GetStructure], rows_printed = rows, raised = failed\<rparr>))"

section \<open>The two walkers of an element tree\<close>

text \<open>
  Both walkers normalise their arguments in the same way:
  \<^verbatim>\<open>
  tags = [] if tags is None else tags if type(tags) == list else [tags]
  events = events or ["start","end"]
  \<close>
  and emit an event for an element under the same condition,
  \<open>( not tags or elnow.tag in tags ) and "start" in events\<close> (and likewise for \<open>end\<close>).
\<close>

datatype tags_arg = TagsNone | TagsSingle string | TagsList "string list"

definition norm_tags :: "tags_arg \<Rightarrow> string list" where
  "norm_tags tags = (case tags of TagsNone \<Rightarrow> [] | TagsList ts \<Rightarrow> ts | TagsSingle t \<Rightarrow> [t])"

definition norm_events :: "string list option \<Rightarrow> string list" where
  "norm_events events =
     (case events of None \<Rightarrow> [''start'', ''end''] | Some [] \<Rightarrow> [''start'', ''end''] | Some es \<Rightarrow> es)"

definition emits :: "string list \<Rightarrow> string list \<Rightarrow> string \<Rightarrow> xml \<Rightarrow> bool" where
  "emits tags events ev elnow = ((tags = [] \<or> tag elnow \<in> set tags) \<and> ev \<in> set events)"

text \<open>
  \<^verbatim>\<open>
  def iterwalk(root, events=None, tags=None):
      stack = [[root,list(root)]]
      tags = ...
      events = ...
      def iterator():
          while stack:
              elnow,children = stack[-1]
              if children is None:
                  if ( not tags or elnow.tag in tags ) and "start" in events:
                      yield ("start",elnow)
                  stack[-1][1] = list(elnow)
              elif len(children)>0:
                  thischild = children.pop(0)
                  stack.append([thischild,None])
              else:
                  if len(stack)>1 and ( not tags or elnow.tag in tags ) and "end" in events:
                      yield ("end",elnow)
                  stack.pop()
      return iterator
  \<close>
  The stack is a list of frames, here with its top first; a frame is an element and either
  \<open>None\<close> or the children still to visit. \<open>iterwalk_loop\<close> is the \<open>while\<close> loop: the list of
  the pairs it yields from a given stack on. It ends because every iteration makes the
  weight of the stack smaller (\<open>frame_weight\<close>, with \<open>nodes\<close> the number of elements of a
  tree). \<open>iterwalk\<close> is the first run of the iterator the function returns.
\<close>

fun nodes :: "xml \<Rightarrow> nat" where
  "nodes (Element t a x cs) = Suc (sum_list (map nodes cs))"

fun frame_weight :: "xml \<times> xml list option \<Rightarrow> nat" where
  "frame_weight (elnow, None) = 3 * sum_list (map nodes (children elnow)) + 2"
| "frame_weight (elnow, Some cs) = 3 * sum_list (map nodes cs) + 1"

function iterwalk_loop ::
  "string list \<Rightarrow> string list \<Rightarrow> (xml \<times> xml list option) list \<Rightarrow> (string \<times> xml) list" where
  "iterwalk_loop tags events [] = []"
| "iterwalk_loop tags events ((elnow, None) # stack) =
     (if emits tags events ''start'' elnow then [(''start'', elnow)] else []) @
     iterwalk_loop tags events ((elnow, Some (children elnow)) # stack)"
| "iterwalk_loop tags events ((elnow, Some (thischild # cs)) # stack) =
     iterwalk_loop tags events ((thischild, None) # (elnow, Some cs) # stack)"
| "iterwalk_loop tags events ((elnow, Some []) # stack) =
     (if stack \<noteq> [] \<and> emits tags events ''end'' elnow then [(''end'', elnow)] else []) @
     iterwalk_loop tags events stack"
  by pat_completeness auto
termination
  by (relation "measure (\<lambda>(tags, events, stack). sum_list (map frame_weight stack))")
     (auto, case_tac thischild, auto)

definition iterwalk :: "xml \<Rightarrow> string list option \<Rightarrow> tags_arg \<Rightarrow> (string \<times> xml) list" where
  "iterwalk root events tags =
     iterwalk_loop (norm_tags tags) (norm_events events) [(root, Some (children root))]"

text \<open>
  \<^verbatim>\<open>
  def iterwalk1(root, events=None, tags=None):
      tags = ...
      events = ...
      def recursiveiterator(el,suppressyield=False):
          if not suppressyield and ( not tags or el.tag in tags ) and "start" in events:
              yield ("start",el)
          for child in list(el):
              yield from recursiveiterator(child)
          if not suppressyield and  ( not tags or el.tag in tags ) and "end" in events:
              yield ("end",el)
      def iterator():
          yield from recursiveiterator( root, suppressyield=True )
      return iterator
  \<close>
  (\<open>recursiveiterator_x\<close>: the name \<open>recursiveiterator\<close> is taken by the walker of the flat
  list.) The recursion is on the element tree, which is finite.
\<close>

fun recursiveiterator_x :: "string list \<Rightarrow> string list \<Rightarrow> bool \<Rightarrow> xml \<Rightarrow> (string \<times> xml) list" where
  "recursiveiterator_x tags events suppressyield (Element t a x cs) =
     (if \<not> suppressyield \<and> emits tags events ''start'' (Element t a x cs)
      then [(''start'', Element t a x cs)] else []) @
     concat (map (recursiveiterator_x tags events False) cs) @
     (if \<not> suppressyield \<and> emits tags events ''end'' (Element t a x cs)
      then [(''end'', Element t a x cs)] else [])"

definition iterwalk1 :: "xml \<Rightarrow> string list option \<Rightarrow> tags_arg \<Rightarrow> (string \<times> xml) list" where
  "iterwalk1 root events tags =
     recursiveiterator_x (norm_tags tags) (norm_events events) True root"

section \<open>The outline loop of the RDF/XML branch\<close>

text \<open>
  The RDF/XML branch of the original main program walks the element tree with \<open>iterwalk1\<close>
  and numbers it in the same way (the branch is not reached while \<open>format\<close> is \<open>"JSON"\<close>):
  \<^verbatim>\<open>
  modroot_x = rdfxml.xml_find_element( modstructure_x, './rm_modules:Binding' )
  it = iterwalk1(modroot_x, events=["start","end"],
         tags=[rdfxml.uri_to_tag('rm_modules:childBindings'),rdfxml.uri_to_tag("rm_modules:Binding")] )
  level = 0
  headinglevel = []
  for event,el in it():
      if el.tag==rdfxml.uri_to_tag("rm_modules:childBindings"):
          if event == "start":
              level += 1
              headinglevel.append([0,0])
          if event == "end":
              level -= 1
              headinglevel.pop()
      if el.tag==rdfxml.uri_to_tag("rm_modules:Binding"):
          isheading = ( rdfxml.xmlrdf_get_resource_text( el, './rm_modules:isHeading' ) == "true" )
          if event=="start":
              ba_u = rdfxml.xmlrdf_get_resource_uri( el, './rm_modules:boundArtifact' )
              if ba_u and ba_u.startswith( c.app.baseurl ):
                  ... (title and identifier of the artifact)
              else:
                  ...
                  raise Exception( f"Unexpected: No or invalid artifact URI {ba_u}" )
              if isheading:
                  headinglevel[-1][0] += 1
                  headinglevel[-1][1] = 0
              else:
                  headinglevel[-1][1] += 1
              ... (the three prints)
  \<close>
  The two library helpers read the first child with the given tag:
  \<open>xmlrdf_get_resource_text\<close> its text, \<open>xmlrdf_get_resource_uri\<close> its \<open>rdf:resource\<close>
  attribute or else its \<open>rdf:about\<close> attribute or else its text, the first of them that is
  not empty (\<open>None\<close> when there is no such child or all three are empty or missing).
\<close>

definition child_with_tag :: "string \<Rightarrow> xml \<Rightarrow> xml option" where
  "child_with_tag t el = find (\<lambda>c. tag c = t) (children el)"

definition xmlrdf_get_resource_text :: "xml \<Rightarrow> string \<Rightarrow> string option" where
  "xmlrdf_get_resource_text el t = map_option etext (child_with_tag t el)"

definition xmlrdf_get_resource_uri :: "xml \<Rightarrow> string \<Rightarrow> string option" where
  "xmlrdf_get_resource_uri el t =
     (case child_with_tag t el of
        None \<Rightarrow> None
      | Some c \<Rightarrow>
          find (\<lambda>v. v \<noteq> [])
            (concat (map (\<lambda>v. case v of None \<Rightarrow> [] | Some u \<Rightarrow> [u])
               [map_of (attrib c) ''rdf:resource'', map_of (attrib c) ''rdf:about'',
                Some (etext c)])))"

definition outline_step_x ::
  "string \<Rightarrow> (string \<Rightarrow> string \<times> string) \<Rightarrow> string \<Rightarrow> xml \<Rightarrow> walk_state \<Rightarrow> error + walk_state" where
  "outline_step_x baseurl artifact_info event el st =
     (case (if tag el = ''rm_modules:childBindings''
            then (let st1 = (if event = ''start''
                             then st\<lparr>level := level st + 1,
                                     headinglevel := headinglevel st @ [(0, 0)]\<rparr>
                             else st)
                  in if event = ''end''
                     then (if headinglevel st1 = [] then Inl IndexError
                           else Inr (st1\<lparr>level := level st1 - 1,
                                          headinglevel := butlast (headinglevel st1)\<rparr>))
                     else Inr st1)
            else Inr st) of
        Inl e \<Rightarrow> Inl e
      | Inr st2 \<Rightarrow>
          if tag el = ''rm_modules:Binding'' \<and> event = ''start'' then
            (case xmlrdf_get_resource_uri el ''rm_modules:boundArtifact'' of
               None \<Rightarrow> Inl (PyException ''Unexpected: No or invalid artifact URI'')
             | Some ba_u \<Rightarrow>
                 if ba_u = [] \<or> \<not> startswith ba_u baseurl
                 then Inl (PyException ''Unexpected: No or invalid artifact URI'')
                 else (case count_node
                              (xmlrdf_get_resource_text el ''rm_modules:isHeading'' = Some ''true'')
                              (headinglevel st2) of
                         Inl e \<Rightarrow> Inl e
                       | Inr hl \<Rightarrow>
                           Inr (st2\<lparr>headinglevel := hl,
                                     printed := printed st2 @
                                       [\<lparr>row_id = snd (artifact_info ba_u),
                                         row_level = level st2,
                                         row_section = getsectionnumber hl,
                                         row_summary = fst (artifact_info ba_u)\<rparr>]\<rparr>)))
          else Inr st2)"

fun outline_loop_x ::
  "string \<Rightarrow> (string \<Rightarrow> string \<times> string) \<Rightarrow> (string \<times> xml) list \<Rightarrow> walk_state
     \<Rightarrow> walk_state \<times> error option" where
  "outline_loop_x baseurl artifact_info [] st = (st, None)"
| "outline_loop_x baseurl artifact_info ((event, el) # rest) st =
     (case outline_step_x baseurl artifact_info event el st of
        Inl e \<Rightarrow> (st, Some e)
      | Inr st' \<Rightarrow> outline_loop_x baseurl artifact_info rest st')"

definition structure_tags :: tags_arg where
  "structure_tags = TagsList [''rm_modules:childBindings'', ''rm_modules:Binding'']"

definition print_outline_x ::
  "string \<Rightarrow> (string \<Rightarrow> string \<times> string) \<Rightarrow> xml \<Rightarrow> outline_row list \<times> error option" where
  "print_outline_x baseurl artifact_info modroot_x =
     (case outline_loop_x baseurl artifact_info
             (iterwalk1 modroot_x (Some [''start'', ''end'']) structure_tags)
             \<lparr>level = 0, headinglevel = [], printed = []\<rparr> of
        (st, failed) \<Rightarrow> (printed st, failed))"

text \<open>
  A tree is well formed for this loop when every binding below the root lies inside a
  children container: \<open>bindings_nested inside el\<close> holds when that is so for \<open>el\<close> and the
  elements below it, \<open>inside\<close> telling whether a children container is open above \<open>el\<close>.
\<close>

fun bindings_nested :: "bool \<Rightarrow> xml \<Rightarrow> bool" where
  "bindings_nested inside (Element t a x cs) =
     ((t = ''rm_modules:Binding'' \<longrightarrow> inside)
      \<and> list_all (bindings_nested (inside \<or> t = ''rm_modules:childBindings'')) cs)"

section \<open>The creation payload\<close>

text \<open>
  Each script writes the payload as an f-string and parses it with \<open>ET.fromstring\<close>. The
  model is the parsed document, for interpolated values that are plain text (a title with
  markup of its own would change the parse). The three templates share the elements after
  the type markers (\<open>payload_body\<close>); they differ in the markers and in the text of the
  description. The namespace declarations are not modelled.

  The original script (\<open>thexml_t\<close>; \<open>argv1\<close> is the artifact type, \<open>argv2\<close> the title):
  \<^verbatim>\<open>
  if "Requirement" == sys.argv[1]:  # "Requirement" assumed
      thexml_t = f"""<rdf:RDF ...>
      <rdf:Description rdf:about="">
          <rdf:type rdf:resource="http://open-services.net/ns/rm#Requirement"/>
          <dc:description rdf:parseType="Literal">Holgi was here</dc:description>
          <jazz_rm:primaryText rdf:parseType="Literal">
              <div xmlns="http://www.w3.org/1999/xhtml"><p><span>{sys.argv[2]}</span></p></div>
          </jazz_rm:primaryText>
          <dc:title rdf:parseType="Literal">{sys.argv[2]}</dc:title>
          <oslc:instanceShape rdf:resource="{theshape_u}"/>
          <nav:parent rdf:resource="{thefolder.folderuri}"/>
      </rdf:Description></rdf:RDF>"""
  else:                  # "Heading" assumed
      thexml_t = f"""<rdf:RDF ...>
      <rdf:Description rdf:about="">
          <rdf:type rdf:resource="http://open-services.net/ns/rm#Requirement"/>
          <rdf:type rdf:resource="https://hep.continental.com/ns/automotive/rm/ty/heading"/>
          <rdf:type rdf:resource="http://jazz.net/ns/rm#Text"/>
          ... (as above)
  \<close>
  V2 (\<open>create_artifact_in_folder\<close>) has one template with the line
  \<^verbatim>\<open>
  {'<rdf:type rdf:resource="https://hep.continental.com/ns/automotive/rm/ty/heading"/> <rdf:type rdf:resource="http://jazz.net/ns/rm#Text"/>' if artifact_type == "Heading" else ''}
  \<close>
  after the first \<open>rdf:type\<close>; V4 (\<open>create_artifact_in_folder\<close>) has one template with the
  first \<open>rdf:type\<close> only.
\<close>

definition rdf_type :: "string \<Rightarrow> xml" where
  "rdf_type resource = Element ''rdf:type'' [(''rdf:resource'', resource)] [] []"

definition requirement_type :: string where
  "requirement_type = ''http://open-services.net/ns/rm#Requirement''"

definition heading_type :: string where
  "heading_type = ''https://hep.continental.com/ns/automotive/rm/ty/heading''"

definition text_type :: string where
  "text_type = ''http://jazz.net/ns/rm#Text''"

definition payload_body :: "string \<Rightarrow> string \<Rightarrow> string \<Rightarrow> string \<Rightarrow> xml list" where
  "payload_body description title shape_u folderuri =
     [Element ''dc:description'' [(''rdf:parseType'', ''Literal'')] description [],
      Element ''jazz_rm:primaryText'' [(''rdf:parseType'', ''Literal'')] []
        [Element ''div'' [] [] [Element ''p'' [] [] [Element ''span'' [] title []]]],
      Element ''dc:title'' [(''rdf:parseType'', ''Literal'')] title [],
      Element ''oslc:instanceShape'' [(''rdf:resource'', shape_u)] [] [],
      Element ''nav:parent'' [(''rdf:resource'', folderuri)] [] []]"

definition thexml_t :: "string \<Rightarrow> string \<Rightarrow> string \<Rightarrow> string \<Rightarrow> xml" where
  "thexml_t argv1 argv2 theshape_u folderuri =
     (if ''Requirement'' = argv1
      then Element ''rdf:RDF'' [] []
             [Element ''rdf:Description'' [(''rdf:about'', [])] []
                (rdf_type requirement_type #
                 payload_body ''Holgi was here'' argv2 theshape_u folderuri)]
      else Element ''rdf:RDF'' [] []
             [Element ''rdf:Description'' [(''rdf:about'', [])] []
                (rdf_type requirement_type # rdf_type heading_type # rdf_type text_type #
                 payload_body ''Holgi was here'' argv2 theshape_u folderuri)])"

definition xml_payload_V2 :: "string \<Rightarrow> string \<Rightarrow> string \<Rightarrow> string \<Rightarrow> xml" where
  "xml_payload_V2 artifact_type artifact_title the_shape_u folderuri =
     Element ''rdf:RDF'' [] []
       [Element ''rdf:Description'' [(''rdf:about'', [])] []
          (rdf_type requirement_type #
           (if artifact_type = ''Heading'' then [rdf_type heading_type, rdf_type text_type] else []) @
           payload_body ''Erstellt durch Python-Skript'' artifact_title the_shape_u folderuri)]"

definition xml_payload_V4 :: "string \<Rightarrow> string \<Rightarrow> string \<Rightarrow> string \<Rightarrow> xml" where
  "xml_payload_V4 artifact_type artifact_title shape_uri folderuri =
     Element ''rdf:RDF'' [] []
       [Element ''rdf:Description'' [(''rdf:about'', [])] []
          (rdf_type requirement_type #
           payload_body ''Erstellt durch Python-Skript'' artifact_title shape_uri folderuri)]"

text \<open>
  The type markers a payload embeds: the resources of the \<open>rdf:type\<close> elements of its
  description, in order.
\<close>

definition type_markers :: "xml \<Rightarrow> string list" where
  "type_markers payload =
     concat (map (\<lambda>d. concat (map (\<lambda>c. if tag c = ''rdf:type'' then map snd (attrib c) else [])
                                  (children d)))
                 (children payload))"

section \<open>Concrete structures, tables and servers\<close>

text \<open>Inputs on which the properties below are instantiated.\<close>

definition binding_el :: "xml list \<Rightarrow> xml" where
  "binding_el cs = Element ''rm_modules:Binding'' [] [] cs"

definition child_bindings_el :: "xml list \<Rightarrow> xml" where
  "child_bindings_el cs = Element ''rm_modules:childBindings'' [] [] cs"

definition rdf_doc :: "xml list \<Rightarrow> xml" where
  "rdf_doc cs = Element ''rdf:RDF'' [] [] cs"

text \<open>A module without content: the root binding with an empty children container.\<close>

definition empty_module :: xml where
  "empty_module = rdf_doc [binding_el [child_bindings_el []]]"

text \<open>A root with one top-level binding that has one child.\<close>

definition one_heading_module :: xml where
  "one_heading_module =
     rdf_doc [binding_el [child_bindings_el
       [binding_el [child_bindings_el [binding_el [child_bindings_el []]]]]]]"

text \<open>A root with two top-level bindings without children, and the same after a binding.\<close>

definition two_headings_module :: xml where
  "two_headings_module =
     rdf_doc [binding_el [child_bindings_el
       [binding_el [child_bindings_el []], binding_el [child_bindings_el []]]]]"


text \<open>Records of the flat list: \<open>jb u h cs\<close> has URI \<open>u\<close>, heading flag \<open>h\<close> and children \<open>cs\<close>.\<close>

definition jb :: "string \<Rightarrow> bool \<Rightarrow> string list \<Rightarrow> jbinding" where
  "jb u h cs = \<lparr>uri = u, binding_type = Some ''dng_module:Binding'', component = None,
      isStructureRoot = None, isHeading = Some h, binding_module = None,
      boundArtifact = None, childBindings = cs\<rparr>"

text \<open>
  One level: the root \<open>s/R\<close> with a heading, a non-heading, a heading and two non-headings.
\<close>

definition flat5 :: "jbinding list" where
  "flat5 = [jb ''s/R'' False [''s/a'', ''s/b'', ''s/c'', ''s/d'', ''s/e''],
            jb ''s/a'' True [], jb ''s/b'' False [], jb ''s/c'' True [], jb ''s/d'' False [],
            jb ''s/e'' False []]"

text \<open>Nested: the root, a heading that contains a heading that contains a non-heading.\<close>

definition nested3 :: "jbinding list" where
  "nested3 = [jb ''s/R'' False [''s/h1''], jb ''s/h1'' True [''s/h2''],
              jb ''s/h2'' True [''s/leaf''], jb ''s/leaf'' False []]"

definition titles :: "string \<Rightarrow> string \<times> string" where
  "titles u = (''title of '' @ u, ''id of '' @ u)"

text \<open>
  Bindings of the element tree with a heading flag and a bound artifact: the nested
  structure again, as a tree under its root binding.
\<close>

definition hb :: "string \<Rightarrow> string \<Rightarrow> xml list \<Rightarrow> xml" where
  "hb u h cs = Element ''rm_modules:Binding'' [] []
     [Element ''rm_modules:isHeading'' [] h [],
      Element ''rm_modules:boundArtifact'' [(''rdf:resource'', u)] [] [],
      Element ''rm_modules:childBindings'' [] [] cs]"

definition nested3_x :: xml where
  "nested3_x = hb [] ''false'' [hb ''s/h1'' ''true'' [hb ''s/h2'' ''true'' [hb ''s/leaf'' ''false'' []]]]"



definition rejecting_server :: "jbinding list server" where
  "rejecting_server =
     \<lparr>fetch_structure = (\<lambda>k. ([(jb ''s/R'' False [])\<lparr>isStructureRoot := Some True\<rparr>], ''E1'')),
      submit_structure = (\<lambda>d t. \<lparr>status_code = 412, location = None\<rparr>)\<rparr>"


text \<open>
  A server whose list has a flagged record first that is not the root: \<open>s/a\<close> is a child of
  the root \<open>s/R\<close>, which comes second and carries no flag.
\<close>

definition misflagged_server :: "jbinding list server" where
  "misflagged_server =
     \<lparr>fetch_structure =
        (\<lambda>k. ([(jb ''s/a'' True [])\<lparr>isStructureRoot := Some True\<rparr>, jb ''s/R'' False [''s/a'']],
              ''E1'')),
      submit_structure = (\<lambda>d t. \<lparr>status_code = 200, location = None\<rparr>)\<rparr>"

text \<open>A server whose list has a record without the root flag first and the root second.\<close>

definition unflagged_first_server :: "jbinding list server" where
  "unflagged_first_server =
     \<lparr>fetch_structure =
        (\<lambda>k. ([jb ''s/a'' True [], (jb ''s/R'' False [''s/a''])\<lparr>isStructureRoot := Some True\<rparr>],
              ''E1'')),
      submit_structure = (\<lambda>d t. \<lparr>status_code = 200, location = None\<rparr>)\<rparr>"

section \<open>Properties of the section number\<close>

lemma getsectionnumber_loop_acc:
  "getsectionnumber_loop hl hs = hs @ map level_label hl"
  by (induction hl hs rule: getsectionnumber_loop.induct) (auto simp: level_label_def)

lemma join_dot_level_labels: "join ''.'' (map level_label hl) = dot_joined_label hl"
  by (induction hl rule: dot_joined_label.induct) simp_all

lemma str_int_digits: "str_int 0 = ''0''" "str_int 1 = ''1''" "str_int 2 = ''2''" "str_int 3 = ''3''"
  by (simp_all add: str_int_def str_nat.simps digit_char_def)

text \<open>
  C5: for every stack of counter pairs \<open>getsectionnumber\<close> returns the dot-joined
  sequence, outermost level first, of each level's heading count, with a dash and the
  sub-count appended exactly when the sub-count is not zero; the stack
  \<open>[(2,0),(1,3)]\<close> renders to \<open>2.1-3\<close>.
\<close>

theorem getsectionnumber_dot_joined:
  "getsectionnumber hl = dot_joined_label hl
   \<and> getsectionnumber [(2, 0), (1, 3)] = ''2.1-3''"
  by (simp add: getsectionnumber_def getsectionnumber_loop_acc join_dot_level_labels
      level_label_def str_int_digits)

section \<open>Properties of the insertion slot\<close>

text \<open>
  \<open>findall\<close> returns exactly the positions whose tags spell the path, in document order
  (the lexicographic order of positions).
\<close>

lemma collect_iff:
  "q \<in> set (collect t f n cs) \<longleftrightarrow>
     (\<exists>i p. q = (n + i) # p \<and> i < length cs \<and> tag (cs ! i) = t \<and> p \<in> set (f (cs ! i)))"
proof (induction cs arbitrary: n)
  case Nil
  then show ?case by simp
next
  case (Cons c cs)
  show ?case
  proof
    assume "q \<in> set (collect t f n (c # cs))"
    then consider (a) "tag c = t" "q \<in> (#) n ` set (f c)" | (b) "q \<in> set (collect t f (Suc n) cs)"
      by (auto split: if_splits)
    then show "\<exists>i p. q = (n + i) # p \<and> i < length (c # cs) \<and> tag ((c # cs) ! i) = t \<and> p \<in> set (f ((c # cs) ! i))"
    proof cases
      case a
      then obtain p where "q = n # p" "p \<in> set (f c)" by auto
      with a show ?thesis by (intro exI[of _ 0] exI[of _ p]) simp
    next
      case b
      then obtain i p where "q = (Suc n + i) # p" "i < length cs" "tag (cs ! i) = t" "p \<in> set (f (cs ! i))"
        using Cons.IH[of "Suc n"] by blast
      then show ?thesis by (intro exI[of _ "Suc i"] exI[of _ p]) simp
    qed
  next
    assume "\<exists>i p. q = (n + i) # p \<and> i < length (c # cs) \<and> tag ((c # cs) ! i) = t \<and> p \<in> set (f ((c # cs) ! i))"
    then obtain i p where h: "q = (n + i) # p" "i < length (c # cs)" "tag ((c # cs) ! i) = t" "p \<in> set (f ((c # cs) ! i))"
      by blast
    show "q \<in> set (collect t f n (c # cs))"
    proof (cases i)
      case 0
      with h show ?thesis by simp
    next
      case (Suc j)
      with h have "q \<in> set (collect t f (Suc n) cs)"
        using Cons.IH[of "Suc n"] by auto
      then show ?thesis by simp
    qed
  qed
qed

lemma findall_iff: "q \<in> set (findall ts e) \<longleftrightarrow> path_tags q e = Some ts"
proof (induction ts arbitrary: q e)
  case Nil
  then show ?case by (cases q) auto
next
  case (Cons t ts)
  show ?case
  proof (cases q)
    case Nil
    then show ?thesis by (simp add: collect_iff)
  next
    case (Cons i p)
    then show ?thesis using Cons.IH by (auto simp: collect_iff)
  qed
qed

lemma collect_sorted:
  "(\<And>c. c \<in> set cs \<Longrightarrow> sorted_wrt (<) (f c)) \<Longrightarrow> sorted_wrt (<) (collect t f n cs)"
proof (induction cs arbitrary: n)
  case Nil
  then show ?case by simp
next
  case (Cons c cs)
  have 1: "sorted_wrt (<) (map ((#) n) (f c))"
    using Cons.prems[of c] by (simp add: sorted_wrt_map)
  have 2: "sorted_wrt (<) (collect t f (Suc n) cs)"
    using Cons by simp
  have 3: "\<forall>x\<in>set (map ((#) n) (f c)). \<forall>y\<in>set (collect t f (Suc n) cs). x < y"
    by (auto simp: collect_iff)
  show ?case using 1 2 3 by (auto simp: sorted_wrt_append)
qed

lemma findall_sorted: "sorted_wrt (<) (findall ts e)"
  by (induction ts arbitrary: e) (auto intro: collect_sorted)

lemma findall_first:
  assumes "findall ts e = p # ps"
  shows "path_tags p e = Some ts" and "path_tags q e = Some ts \<Longrightarrow> p \<le> q"
proof -
  show "path_tags p e = Some ts" using assms findall_iff[of p ts e] by simp
  assume "path_tags q e = Some ts"
  then have "q \<in> set (p # ps)" using findall_iff[of q ts e] assms by simp
  moreover have "sorted_wrt (<) (p # ps)" using findall_sorted[of ts e] assms by simp
  ultimately show "p \<le> q" by auto
qed

lemma subtree_append_at:
  "subtree p doc = Some slot \<Longrightarrow>
   subtree p (append_at p new doc) = Some (Element (tag slot) (attrib slot) (etext slot) (children slot @ [new]))"
proof (induction p new doc rule: append_at.induct)
  case (1 new t a x cs)
  then show ?case by auto
next
  case (2 i p new t a x cs)
  then show ?case by (cases "cs ! i") (auto split: if_splits)
qed


lemma path_tags_subtree:
  "path_tags p e = Some ts \<Longrightarrow> \<exists>s. subtree p e = Some s \<and> (ts \<noteq> [] \<longrightarrow> tag s = last ts)"
proof (induction p arbitrary: e ts)
  case Nil
  then show ?case by simp
next
  case (Cons i p)
  from Cons.prems obtain ts' where i: "i < length (children e)"
    and ts': "path_tags p (children e ! i) = Some ts'" and ts: "ts = tag (children e ! i) # ts'"
    by (auto split: if_splits)
  from Cons.IH[OF ts'] obtain s where s: "subtree p (children e ! i) = Some s"
    and l: "ts' \<noteq> [] \<longrightarrow> tag s = last ts'" by blast
  have "ts' = [] \<Longrightarrow> p = []" using ts' by (cases p) (auto split: if_splits)
  then have "tag s = last ts" using s l ts by (cases "ts' = []") auto
  then show ?case using i s by simp
qed

text \<open>
  C1, as the claim states it, fails on V2: on a module without content the two-level path
  does not exist, and \<open>bind_artifact_to_module_structure\<close> (V2) still finds a slot, the
  children container of the root binding itself.
\<close>

theorem insertion_slot_V2_counterexample:
  "findall insertion_point_xpath empty_module = []
   \<and> first_child_bindings_V2 empty_module = Inr [0, 0]"
  by (simp add: insertion_point_xpath_def empty_module_def first_child_bindings_V2_def
      first_child_bindings_xpath_def rdf_doc_def binding_el_def child_bindings_el_def)

text \<open>
  C1, amended: in V4 the insertion slot is the first element in document order reached by
  the fixed path Binding/childBindings/Binding/childBindings (two levels below the root
  binding), and \<open>ValueError\<close> is raised exactly on the documents in which no position has
  that path, so no other node is ever returned. In V2 the slot, when one is found, is the
  first element reached by the path Binding/childBindings: the children container of the
  root binding, one level below it.
\<close>

theorem insertion_slot_fixed_path:
  "(case insertion_point_V4 doc of
      Inl e \<Rightarrow> e = ValueError ''Konnte keine gueltige Einfuegeposition finden''
               \<and> (\<forall>q. path_tags q doc \<noteq> Some insertion_point_xpath)
    | Inr p \<Rightarrow> path_tags p doc = Some insertion_point_xpath
               \<and> (\<forall>q. path_tags q doc = Some insertion_point_xpath \<longrightarrow> p \<le> q))
   \<and> (case first_child_bindings_V2 doc of
      Inl e \<Rightarrow> True
    | Inr p \<Rightarrow> path_tags p doc = Some first_child_bindings_xpath
               \<and> (\<forall>q. path_tags q doc = Some first_child_bindings_xpath \<longrightarrow> p \<le> q))"
proof -
  have none: "\<forall>q. path_tags q doc \<noteq> Some ts" if "findall ts doc = []" for ts
    using that findall_iff[of _ ts doc] by simp
  show ?thesis
    unfolding insertion_point_V4_def first_child_bindings_V2_def
    by (auto split: list.splits simp: none dest: findall_first)
qed

text \<open>
  C1, the amended property on a root with two top-level bindings: V4 returns the children
  container of the first one, which precedes that of the second; V2 returns the root's.
\<close>

theorem insertion_slot_fixed_path_witness:
  "insertion_point_V4 two_headings_module = Inr [0, 0, 0, 0]
   \<and> path_tags [0, 0, 1, 0] two_headings_module = Some insertion_point_xpath
   \<and> [0, 0, 0, 0] \<le> [0, 0, 1, (0::nat)]
   \<and> first_child_bindings_V2 two_headings_module = Inr [0, 0]"
proof -
  have a: "insertion_point_V4 two_headings_module = Inr [0, 0, 0, 0]"
    by (simp add: insertion_point_V4_def insertion_point_xpath_def two_headings_module_def
      rdf_doc_def binding_el_def child_bindings_el_def)
  have b: "first_child_bindings_V2 two_headings_module = Inr [0, 0]"
    by (simp add: first_child_bindings_V2_def first_child_bindings_xpath_def two_headings_module_def
      rdf_doc_def binding_el_def child_bindings_el_def)
  have c: "path_tags [0, 0, 1, 0] two_headings_module = Some insertion_point_xpath"
    by (simp add: insertion_point_xpath_def two_headings_module_def
      rdf_doc_def binding_el_def child_bindings_el_def)
  from insertion_slot_fixed_path[of two_headings_module] a c
  have "[0, 0, 0, 0] \<le> [0, 0, 1, (0::nat)]"
    by simp
  with a b c show ?thesis by simp
qed

section \<open>Appending the new binding\<close>

text \<open>
  C2: appending a new binding to an insertion slot leaves the slot's children as they were,
  in their order, and puts the new binding last. For the element tree: at the slot V4
  finds (a children container), and at any position that denotes an element; for the flat
  list: the reference goes to the end of the first record's \<open>childBindings\<close> and the new
  record to the end of the list, every other record in its place.
\<close>

theorem append_keeps_sibling_order:
  "(insertion_point_V4 doc = Inr p \<longrightarrow>
      (\<exists>slot. subtree p doc = Some slot \<and> tag slot = ''rm_modules:childBindings''
         \<and> subtree p (append_at p new doc) =
             Some (Element (tag slot) (attrib slot) (etext slot) (children slot @ [new]))))
   \<and> (subtree q doc = Some slot' \<longrightarrow>
        subtree q (append_at q new doc) =
          Some (Element (tag slot') (attrib slot') (etext slot') (children slot' @ [new])))
   \<and> append_newbinding nb (r0 # rest) =
        Inr ((r0\<lparr>childBindings := childBindings r0 @ [tempbinding_u]\<rparr> # rest) @ [nb])"
proof -
  have "\<exists>slot. subtree p doc = Some slot \<and> tag slot = ''rm_modules:childBindings''
         \<and> subtree p (append_at p new doc) =
             Some (Element (tag slot) (attrib slot) (etext slot) (children slot @ [new]))"
    if "insertion_point_V4 doc = Inr p"
  proof -
    from that have "path_tags p doc = Some insertion_point_xpath"
      by (auto simp: insertion_point_V4_def split: list.splits dest: findall_first(1))
    from path_tags_subtree[OF this] obtain slot where
      "subtree p doc = Some slot" "tag slot = ''rm_modules:childBindings''"
      by (auto simp: insertion_point_xpath_def)
    then show ?thesis using subtree_append_at[of p doc slot new] by simp
  qed
  then show ?thesis
    by (simp add: subtree_append_at append_newbinding_def)
qed

text \<open>
  C2 on a root whose first top-level binding has one child: after the append the slot
  holds that child first and the new binding last.
\<close>

theorem append_keeps_sibling_order_witness:
  "insertion_point_V4 one_heading_module = Inr [0, 0, 0, 0]
   \<and> subtree [0, 0, 0, 0]
        (append_at [0, 0, 0, 0] (new_binding_xml [] ''c'' ''a'' ''m'') one_heading_module)
       = Some (child_bindings_el
                 [binding_el [child_bindings_el []], new_binding_xml [] ''c'' ''a'' ''m''])"
proof -
  have a: "insertion_point_V4 one_heading_module = Inr [0, 0, 0, 0]"
    by (simp add: insertion_point_V4_def insertion_point_xpath_def one_heading_module_def
      rdf_doc_def binding_el_def child_bindings_el_def)
  have b: "subtree [0, 0, 0, 0] one_heading_module =
             Some (child_bindings_el [binding_el [child_bindings_el []]])"
    by (simp add: one_heading_module_def rdf_doc_def binding_el_def child_bindings_el_def)
  from append_keeps_sibling_order[of one_heading_module "[0, 0, 0, 0]"
         "new_binding_xml [] ''c'' ''a'' ''m''"] a b
  show ?thesis by (simp add: child_bindings_el_def)
qed

section \<open>The conditional update\<close>




text \<open>
  The original script, in general: whatever it submits carries the ETag of its second GET
  and is the changed document of its first GET. It has no status check of its own; on the
  answer 412 the library's \<open>HTTPError\<close> ends its run after the PUT.
\<close>

lemma main_json_token_second_fetch:
  "\<forall>data tok. PutStructure data tok \<in> set (sent (main_json jsrv limit baseurl artifact_info
            theid_text comp_u themodule_u toinsert_u structure_u)) \<longrightarrow>
          tok = snd (fetch_structure jsrv 1)
          \<and> append_newbinding (newbinding comp_u themodule_u toinsert_u) (fst (fetch_structure jsrv 0))
              = Inr data"
  by (auto simp: main_json_def Let_def split: sum.splits option.splits prod.splits if_splits)

lemma main_json_http_error:
  "raised (main_json rejecting_server 1000 ''s/'' titles ''7'' ''c'' ''m'' ''a'' ''s/R'') =
     Some (HTTPError 412)
   \<and> length (sent (main_json rejecting_server 1000 ''s/'' titles ''7'' ''c'' ''m'' ''a'' ''s/R'')) = 3"
  by (simp add: rejecting_server_def main_json_def root_first_check_def append_newbinding_def
      execute_put_def jb_def)

section \<open>The root-first check of the flat list\<close>

text \<open>
  C7, as the claim states it, fails: the check reads the flag of the first record only. On
  a list whose root \<open>s/R\<close> carries no flag and whose first record is a flagged child of the
  root, the run does not fail: the child is taken for the root, the new binding is
  appended to it, and the update is submitted.
\<close>

theorem flagged_non_root_first_counterexample:
  "isStructureRoot (jb ''s/R'' False [''s/a'']) = None
   \<and> ''s/a'' \<in> set (childBindings (jb ''s/R'' False [''s/a'']))
   \<and> main_json misflagged_server 1000 ''s/'' titles ''7'' ''c'' ''m'' ''a'' ''s/R'' =
       \<lparr>sent = [GetStructure, GetStructure,
                PutStructure [(jb ''s/a'' True [tempbinding_u])\<lparr>isStructureRoot := Some True\<rparr>,
                              jb ''s/R'' False [''s/a''], newbinding ''c'' ''m'' ''a''] ''E1'',
                GetStructure],
        rows_printed = [], raised = None\<rparr>"
  by (simp add: misflagged_server_def main_json_def root_first_check_def append_newbinding_def
      execute_put_def jb_def)

text \<open>
  C7, amended: when an artifact is to be bound, the decoding checks the first record of the
  flat list and nothing else. When that record does not carry a true root flag (or the
  list is empty) the run fails at the check, before anything is changed or submitted: the
  only request sent is the first GET, and the exception is
  \<open>Exception("Root not at start of structure!")\<close> for a false flag, the \<open>KeyError\<close> of the
  check's own lookup for a record without the flag, and \<open>IndexError\<close> for the empty list.
  When the first record carries a true flag it is taken for the root, whichever record
  the root of the structure is: the new binding's reference is appended to that record and
  the update is submitted.
\<close>

theorem root_first_check_reads_first_record:
  "(theid_text \<noteq> [] \<and> fst (fetch_structure srv 0) = [] \<longrightarrow>
     main_json srv limit baseurl artifact_info theid_text comp_u themodule_u toinsert_u structure_u =
       \<lparr>sent = [GetStructure], rows_printed = [], raised = Some IndexError\<rparr>)
   \<and> (theid_text \<noteq> [] \<and> fst (fetch_structure srv 0) = first_record # rest
        \<and> isStructureRoot first_record \<noteq> Some True \<longrightarrow>
     main_json srv limit baseurl artifact_info theid_text comp_u themodule_u toinsert_u structure_u =
       \<lparr>sent = [GetStructure], rows_printed = [],
        raised = Some (if isStructureRoot first_record = None then KeyError ''isStructureRoot''
                       else PyException ''Root not at start of structure!'')\<rparr>)
   \<and> (theid_text \<noteq> [] \<and> fst (fetch_structure srv 0) = first_record # rest
        \<and> isStructureRoot first_record = Some True \<longrightarrow>
     take 3 (sent (main_json srv limit baseurl artifact_info theid_text comp_u themodule_u
                     toinsert_u structure_u)) =
       [GetStructure, GetStructure,
        PutStructure ((first_record\<lparr>childBindings := childBindings first_record @ [tempbinding_u]\<rparr> # rest) @
                        [newbinding comp_u themodule_u toinsert_u])
                     (snd (fetch_structure srv 1))])"
  by (auto simp: main_json_def root_first_check_def append_newbinding_def Let_def
      split: option.splits sum.splits)

text \<open>
  C7, the amended property on a list whose first record is a heading without the flag (the
  flagged root comes second): the run fails and the flagged record is not used; and on the
  list whose first record is a flagged child of the unflagged root: the child is changed
  and submitted.
\<close>

theorem root_first_check_reads_first_record_witness:
  "main_json unflagged_first_server 1000 ''s/'' titles ''7'' ''c'' ''m'' ''a'' ''s/R'' =
       \<lparr>sent = [GetStructure], rows_printed = [], raised = Some (KeyError ''isStructureRoot'')\<rparr>
   \<and> take 3 (sent (main_json misflagged_server 1000 ''s/'' titles ''7'' ''c'' ''m'' ''a'' ''s/R'')) =
       [GetStructure, GetStructure,
        PutStructure [(jb ''s/a'' True [tempbinding_u])\<lparr>isStructureRoot := Some True\<rparr>,
                      jb ''s/R'' False [''s/a''], newbinding ''c'' ''m'' ''a''] ''E1'']"
proof -
  have u: "fst (fetch_structure unflagged_first_server 0) =
             jb ''s/a'' True [] # [(jb ''s/R'' False [''s/a''])\<lparr>isStructureRoot := Some True\<rparr>]"
    "isStructureRoot (jb ''s/a'' True []) = None"
    by (simp_all add: unflagged_first_server_def jb_def)
  have m: "fst (fetch_structure misflagged_server 0) =
             (jb ''s/a'' True [])\<lparr>isStructureRoot := Some True\<rparr> # [jb ''s/R'' False [''s/a'']]"
    "isStructureRoot ((jb ''s/a'' True [])\<lparr>isStructureRoot := Some True\<rparr>) = Some True"
    "snd (fetch_structure misflagged_server 1) = ''E1''"
    by (simp_all add: misflagged_server_def jb_def)
  have a: "main_json unflagged_first_server 1000 ''s/'' titles ''7'' ''c'' ''m'' ''a'' ''s/R'' =
       \<lparr>sent = [GetStructure], rows_printed = [], raised = Some (KeyError ''isStructureRoot'')\<rparr>"
    using root_first_check_reads_first_record[where srv = unflagged_first_server
        and theid_text = "''7''" and first_record = "jb ''s/a'' True []"
        and rest = "[(jb ''s/R'' False [''s/a''])\<lparr>isStructureRoot := Some True\<rparr>]"
        and limit = 1000 and baseurl = "''s/''" and artifact_info = titles and comp_u = "''c''"
        and themodule_u = "''m''" and toinsert_u = "''a''" and structure_u = "''s/R''"] u
    by simp
  have b: "take 3 (sent (main_json misflagged_server 1000 ''s/'' titles ''7'' ''c'' ''m'' ''a'' ''s/R'')) =
       [GetStructure, GetStructure,
        PutStructure [(jb ''s/a'' True [tempbinding_u])\<lparr>isStructureRoot := Some True\<rparr>,
                      jb ''s/R'' False [''s/a''], newbinding ''c'' ''m'' ''a''] ''E1'']"
    using root_first_check_reads_first_record[where srv = misflagged_server
        and theid_text = "''7''" and first_record = "(jb ''s/a'' True [])\<lparr>isStructureRoot := Some True\<rparr>"
        and rest = "[jb ''s/R'' False [''s/a'']]"
        and limit = 1000 and baseurl = "''s/''" and artifact_info = titles and comp_u = "''c''"
        and themodule_u = "''m''" and toinsert_u = "''a''" and structure_u = "''s/R''"] m
    by (simp add: jb_def)
  from a b show ?thesis by simp
qed

section \<open>The type markers of the creation payload\<close>

lemma type_markers_body [simp]:
  "concat (map (\<lambda>c. if tag c = ''rdf:type'' then map snd (attrib c) else [])
     (payload_body d t s f)) = []"
  by (simp add: payload_body_def)

text \<open>
  C8, as the claim states it, fails on two of the three scripts: V4 omits the heading
  markers for the type \<open>Heading\<close>, and the original script embeds them for a type that is
  neither \<open>Requirement\<close> nor \<open>Heading\<close>.
\<close>

theorem heading_markers_counterexample:
  "heading_type \<notin> set (type_markers (xml_payload_V4 ''Heading'' ''T'' ''s'' ''f''))
   \<and> heading_type \<in> set (type_markers (thexml_t ''Stakeholder Requirement'' ''T'' ''s'' ''f''))"
  by (simp add: type_markers_def thexml_t_def xml_payload_V4_def rdf_type_def
      requirement_type_def heading_type_def text_type_def)

text \<open>
  C8, amended: the payload of V2 embeds the heading marker and the Text marker exactly
  when the artifact type is the string \<open>Heading\<close>; the payload of the original script
  embeds them exactly when the type is not the string \<open>Requirement\<close> (so, of the two types
  it documents, for \<open>Heading\<close>); the payload of V4 never embeds them.
\<close>

theorem heading_markers_by_script:
  "type_markers (xml_payload_V2 artifact_type title shape folder) =
      (if artifact_type = ''Heading'' then [requirement_type, heading_type, text_type]
       else [requirement_type])
   \<and> type_markers (thexml_t artifact_type title shape folder) =
      (if artifact_type = ''Requirement'' then [requirement_type]
       else [requirement_type, heading_type, text_type])
   \<and> type_markers (xml_payload_V4 artifact_type title shape folder) = [requirement_type]"
  by (simp add: type_markers_def xml_payload_V2_def thexml_t_def xml_payload_V4_def rdf_type_def)

section \<open>The two walkers yield the same events\<close>

lemma recursiveiterator_x_unfold:
  "recursiveiterator_x tags events s el =
     (if \<not> s \<and> emits tags events ''start'' el then [(''start'', el)] else []) @
     concat (map (recursiveiterator_x tags events False) (children el)) @
     (if \<not> s \<and> emits tags events ''end'' el then [(''end'', el)] else [])"
  by (cases el) simp

lemma nodes_pos: "0 < nodes el"
  by (cases el) simp

lemma frame_weight_child:
  "sum_list (map frame_weight ((thischild, None) # (elnow, Some cs) # stack))
     < sum_list (map frame_weight ((elnow, Some (thischild # cs)) # stack))"
  by (cases thischild) simp

lemma iterwalk_loop_frames:
  "iterwalk_loop tags events stack =
     (case stack of
        [] \<Rightarrow> []
      | (elnow, Some cs) # rest \<Rightarrow>
          concat (map (recursiveiterator_x tags events False) cs) @
          (if rest \<noteq> [] \<and> emits tags events ''end'' elnow then [(''end'', elnow)] else []) @
          iterwalk_loop tags events rest
      | (elnow, None) # rest \<Rightarrow>
          (if emits tags events ''start'' elnow then [(''start'', elnow)] else []) @
          concat (map (recursiveiterator_x tags events False) (children elnow)) @
          (if rest \<noteq> [] \<and> emits tags events ''end'' elnow then [(''end'', elnow)] else []) @
          iterwalk_loop tags events rest)"
proof (induction stack rule: measure_induct_rule[where f = "\<lambda>stack. sum_list (map frame_weight stack)"])
  case (less stack)
  show ?case
  proof (cases stack)
    case Nil
    then show ?thesis by simp
  next
    case (Cons frame rest)
    obtain elnow st where frame: "frame = (elnow, st)" by (cases frame)
    show ?thesis
    proof (cases st)
      case None
      have "sum_list (map frame_weight ((elnow, Some (children elnow)) # rest))
              < sum_list (map frame_weight stack)"
        by (simp add: Cons frame None)
      from less.IH[OF this] show ?thesis by (simp add: Cons frame None)
    next
      case (Some cs)
      show ?thesis
      proof (cases cs)
        case Nil
        then show ?thesis by (simp add: Cons frame Some)
      next
        case (Cons thischild cs')
        have 1: "sum_list (map frame_weight ((thischild, None) # (elnow, Some cs') # rest))
              < sum_list (map frame_weight stack)"
          using frame_weight_child[of thischild elnow cs' rest]
          by (simp add: \<open>stack = frame # rest\<close> frame Some Cons)
        have 2: "sum_list (map frame_weight ((elnow, Some cs') # rest))
              < sum_list (map frame_weight stack)"
          by (simp add: \<open>stack = frame # rest\<close> frame Some Cons nodes_pos)
        show ?thesis
          using less.IH[OF 1] less.IH[OF 2]
          by (simp add: \<open>stack = frame # rest\<close> frame Some Cons
              recursiveiterator_x_unfold[of tags events False thischild])
      qed
    qed
  qed
qed

text \<open>
  C9: on the same root element, with the same \<open>events\<close> and the same \<open>tags\<close>, the walker
  with the explicit stack (\<open>iterwalk\<close>) and the recursive walker (\<open>iterwalk1\<close>) yield the
  same sequence of (event, element) pairs.
\<close>

theorem iterwalk_eq_iterwalk1: "iterwalk root events tags = iterwalk1 root events tags"
  unfolding iterwalk_def iterwalk1_def
  by (subst iterwalk_loop_frames) (simp add: recursiveiterator_x_unfold[of _ _ True root])

section \<open>The numbering of the outline\<close>

text \<open>
  C3: on one nesting level, a heading, a non-heading, a heading and two non-headings get
  the section numbers 1, 1-1, 2, 2-1 and 2-2 (for every recursion limit of at least two
  nested generators, and the run ends without an exception); a heading adds one to the
  heading counter at the top of the stack and sets its sub-counter to 0, a non-heading adds
  one to the sub-counter only.
\<close>

theorem numbering_single_level:
  "map row_section (fst (print_outline (Suc (Suc k)) ''s/'' titles ''s/R'' flat5)) =
      [''1'', ''1-1'', ''2'', ''2-1'', ''2-2'']
   \<and> snd (print_outline (Suc (Suc k)) ''s/'' titles ''s/R'' flat5) = None
   \<and> count_node True (hl @ [(h, s)]) = Inr (hl @ [(h + 1, 0)])
   \<and> count_node False (hl @ [(h, s)]) = Inr (hl @ [(h, s + 1)])"
  by (simp add: print_outline_def flat5_def jb_def scan_entries_def json_structure_walk_def
      gen_then_def outline_step_def count_node_def getsectionnumber_def level_label_def
      getsectionnumber_loop_acc str_int_digits startswith_def titles_def)

text \<open>
  C4, as the claim states it, fails: for a heading that contains a heading that contains a
  non-heading the section numbers are not 1, 1.1 and 1.1-1.
\<close>

theorem numbering_nested_levels_counterexample:
  "map row_section (fst (print_outline 1000 ''s/'' titles ''s/R'' nested3)) \<noteq>
      [''1'', ''1.1'', ''1.1-1'']"
  by code_simp

text \<open>
  C4, amended: for a heading that contains a heading that contains a non-heading the
  section numbers are 1, 1.1 and 1.1.0-1: the non-heading is counted on the level of the
  inner heading's children, whose heading counter is still 0 (for every recursion limit
  of at least four nested generators, and the run ends without an exception).
\<close>

theorem numbering_nested_levels:
  "map row_section (fst (print_outline (Suc (Suc (Suc (Suc k)))) ''s/'' titles ''s/R'' nested3)) =
      [''1'', ''1.1'', ''1.1.0-1'']
   \<and> snd (print_outline (Suc (Suc (Suc (Suc k)))) ''s/'' titles ''s/R'' nested3) = None"
  by (simp add: print_outline_def nested3_def jb_def scan_entries_def json_structure_walk_def
      gen_then_def outline_step_def count_node_def getsectionnumber_def level_label_def
      getsectionnumber_loop_acc str_int_digits startswith_def titles_def)

section \<open>The counter stack is never read when empty\<close>

lemma outline_loop_append:
  "outline_loop b a (xs @ ys) st =
     (case outline_loop b a xs st of
        (st', Some e) \<Rightarrow> (st', Some e)
      | (st', None) \<Rightarrow> outline_loop b a ys st')"
  by (induction xs arbitrary: st) (auto split: sum.splits prod.splits)

lemma count_node_length:
  "count_node h hl = Inr hl' \<Longrightarrow> length hl' = length hl"
  by (auto simp: count_node_def split: if_splits)

lemma Suc_length_butlast: "hl \<noteq> [] \<Longrightarrow> Suc (length hl - Suc 0) = length hl"
  by (cases hl) auto

lemma outline_step_length:
  assumes "outline_step b a ev el st = Inr st'"
  shows "length (headinglevel st') + (if ev = ''endChildren'' then 1 else 0) =
           length (headinglevel st) + (if ev = ''startChildren'' then 1 else 0)"
  using assms
  by (auto simp: outline_step_def Let_def Suc_length_butlast dest: count_node_length
      split: if_splits sum.splits option.splits)

lemma outline_step_no_IndexError:
  assumes "headinglevel st \<noteq> [] \<or> ev = ''startChildren''"
  shows "outline_step b a ev el st \<noteq> Inl IndexError"
  using assms
  by (auto simp: outline_step_def Let_def count_node_def split: if_splits sum.splits option.splits)


lemma outline_loop_balanced:
  "outline_loop b a [(ev, el)] st = (st', None) \<Longrightarrow>
   length (headinglevel st') + (if ev = ''endChildren'' then 1 else 0) =
           length (headinglevel st) + (if ev = ''startChildren'' then 1 else 0)"
  by (auto split: sum.splits dest: outline_step_length)

lemma children_safe:
  assumes node: "\<And>u st. u \<in> set us \<Longrightarrow> headinglevel st \<noteq> [] \<Longrightarrow>
     (case outline_loop b a (fst (f u)) st of
        (st', failed) \<Rightarrow> failed \<noteq> Some IndexError \<and>
          (failed = None \<and> snd (f u) = None \<longrightarrow>
             length (headinglevel st') = length (headinglevel st)))"
    and "headinglevel st \<noteq> []"
  shows "case outline_loop b a (fst (gen_concat (map f us))) st of
        (st', failed) \<Rightarrow> failed \<noteq> Some IndexError \<and>
          (failed = None \<and> snd (gen_concat (map f us)) = None \<longrightarrow>
             length (headinglevel st') = length (headinglevel st))"
  using assms
proof (induction us arbitrary: st)
  case Nil
  then show ?case by simp
next
  case (Cons u us)
  obtain st1 f1 where r1: "outline_loop b a (fst (f u)) st = (st1, f1)"
    by (cases "outline_loop b a (fst (f u)) st")
  have h1: "f1 \<noteq> Some IndexError"
    and l1: "f1 = None \<Longrightarrow> snd (f u) = None \<Longrightarrow> length (headinglevel st1) = length (headinglevel st)"
    using Cons.prems(1)[of u st] Cons.prems(2) r1 by auto
  show ?case
  proof (cases "snd (f u)")
    case (Some e)
    then show ?thesis using r1 h1 by (simp add: gen_then_def)
  next
    case None
    show ?thesis
    proof (cases f1)
      case (Some e)
      then show ?thesis using r1 h1 None by (simp add: gen_then_def outline_loop_append)
    next
      case None2: None
      have ne: "headinglevel st1 \<noteq> []" using l1 None None2 Cons.prems(2) by auto
      have IH: "case outline_loop b a (fst (gen_concat (map f us))) st1 of
        (st', failed) \<Rightarrow> failed \<noteq> Some IndexError \<and>
          (failed = None \<and> snd (gen_concat (map f us)) = None \<longrightarrow>
             length (headinglevel st') = length (headinglevel st1))"
        using Cons.IH[of st1] Cons.prems(1) ne by simp
      then show ?thesis using r1 None None2 l1
        by (auto simp: gen_then_def outline_loop_append split: prod.splits)
    qed
  qed
qed

lemma single_event:
  assumes "headinglevel st \<noteq> [] \<or> ev = ''startChildren''"
  shows "case outline_loop b a [(ev, el)] st of
           (st', failed) \<Rightarrow> failed \<noteq> Some IndexError \<and>
             (failed = None \<longrightarrow>
                length (headinglevel st') + (if ev = ''endChildren'' then 1 else 0) =
                length (headinglevel st) + (if ev = ''startChildren'' then 1 else 0))"
  using outline_step_no_IndexError[OF assms, of b a el]
  by (auto split: sum.splits dest!: outline_step_length)

lemma wrap_safe:
  fixes el :: jbinding and C :: "(string \<times> jbinding) gen"
  assumes C: "\<And>st. headinglevel st \<noteq> [] \<Longrightarrow>
     (case outline_loop b a (fst C) st of
        (st', failed) \<Rightarrow> failed \<noteq> Some IndexError \<and>
          (failed = None \<and> snd C = None \<longrightarrow>
             length (headinglevel st') = length (headinglevel st)))"
    and st: "suppressyield \<or> headinglevel st \<noteq> []"
  defines "g \<equiv> gen_then ((if suppressyield then [] else [(''start'', el)]) @ [(''startChildren'', el)], None)
         (gen_then C ([(''endChildren'', el)] @ (if suppressyield then [] else [(''end'', el)]), None))"
  shows "case outline_loop b a (fst g) st of
        (st', failed) \<Rightarrow> failed \<noteq> Some IndexError \<and>
          (failed = None \<and> snd g = None \<longrightarrow>
             length (headinglevel st') = length (headinglevel st))"
proof -
  define pre1 where "pre1 = (if suppressyield then [] else [(''start'', el)])"
  define pre2 where "pre2 = [(''startChildren'', el)]"
  define post1 where "post1 = [(''endChildren'', el)]"
  define post2 where "post2 = (if suppressyield then [] else [(''end'', el)])"
  \<comment> \<open>the optional start event\<close>
  obtain s1 f1 where r1: "outline_loop b a pre1 st = (s1, f1)"
    by (cases "outline_loop b a pre1 st")
  have h1: "f1 \<noteq> Some IndexError" and l1: "f1 = None \<Longrightarrow> length (headinglevel s1) = length (headinglevel st)"
    using r1 st single_event[of st "''start''" b a el] by (auto simp: pre1_def split: if_splits)
  \<comment> \<open>entering the children\<close>
  obtain s2 f2 where r2: "outline_loop b a pre2 s1 = (s2, f2)"
    by (cases "outline_loop b a pre2 s1")
  have h2: "f2 \<noteq> Some IndexError" and l2: "f2 = None \<Longrightarrow> length (headinglevel s2) = Suc (length (headinglevel s1))"
    using r2 single_event[of s1 "''startChildren''" b a el] by (auto simp: pre2_def)
  have ne2: "f2 = None \<Longrightarrow> headinglevel s2 \<noteq> []"
    using l2 by (cases "headinglevel s2") auto
  \<comment> \<open>the children\<close>
  obtain s3 f3 where r3: "outline_loop b a (fst C) s2 = (s3, f3)"
    by (cases "outline_loop b a (fst C) s2")
  have h3: "f2 = None \<Longrightarrow> f3 \<noteq> Some IndexError"
    and l3: "f2 = None \<Longrightarrow> f3 = None \<Longrightarrow> snd C = None \<Longrightarrow> length (headinglevel s3) = length (headinglevel s2)"
    using r3 C[of s2] ne2 by auto
  \<comment> \<open>leaving the children\<close>
  obtain s4 f4 where r4: "outline_loop b a post1 s3 = (s4, f4)"
    by (cases "outline_loop b a post1 s3")
  have ne3: "f2 = None \<Longrightarrow> f3 = None \<Longrightarrow> snd C = None \<Longrightarrow> headinglevel s3 \<noteq> []"
    using l3 ne2 by (cases "headinglevel s3") auto
  have h4: "f2 = None \<Longrightarrow> f3 = None \<Longrightarrow> snd C = None \<Longrightarrow> f4 \<noteq> Some IndexError"
    and l4: "f2 = None \<Longrightarrow> f3 = None \<Longrightarrow> snd C = None \<Longrightarrow> f4 = None \<Longrightarrow>
             Suc (length (headinglevel s4)) = length (headinglevel s3)"
    using r4 single_event[of s3 "''endChildren''" b a el] ne3 by (auto simp: post1_def)
  \<comment> \<open>the optional end event\<close>
  obtain s5 f5 where r5: "outline_loop b a post2 s4 = (s5, f5)"
    by (cases "outline_loop b a post2 s4")
  have l14: "f1 = None \<Longrightarrow> f2 = None \<Longrightarrow> f3 = None \<Longrightarrow> snd C = None \<Longrightarrow> f4 = None \<Longrightarrow>
       length (headinglevel s4) = length (headinglevel st)"
    using l1 l2 l3 l4 by simp
  have e5: "f1 = None \<Longrightarrow> f2 = None \<Longrightarrow> f3 = None \<Longrightarrow> snd C = None \<Longrightarrow> f4 = None \<Longrightarrow>
       suppressyield \<or> headinglevel s4 \<noteq> []"
    using l14 st by (cases "headinglevel s4") auto
  have h5: "f1 = None \<Longrightarrow> f2 = None \<Longrightarrow> f3 = None \<Longrightarrow> snd C = None \<Longrightarrow> f4 = None \<Longrightarrow> f5 \<noteq> Some IndexError"
    and l5: "f1 = None \<Longrightarrow> f2 = None \<Longrightarrow> f3 = None \<Longrightarrow> snd C = None \<Longrightarrow> f4 = None \<Longrightarrow> f5 = None \<Longrightarrow>
       length (headinglevel s5) = length (headinglevel s4)"
    using r5 e5 single_event[of s4 "''end''" b a el] by (auto simp: post2_def split: if_splits)
  show ?thesis
  proof (cases "snd C")
    case (Some e)
    then have "fst g = pre1 @ pre2 @ fst C" and "snd g \<noteq> None"
      by (auto simp: g_def gen_then_def pre1_def pre2_def)
    then show ?thesis using r1 r2 r3 h1 h2 h3
      by (cases f1; cases f2; cases f3) (auto simp: outline_loop_append)
  next
    case None
    then have "fst g = pre1 @ pre2 @ fst C @ post1 @ post2"
      by (auto simp: g_def gen_then_def pre1_def pre2_def post1_def post2_def)
    then show ?thesis using None r1 r2 r3 r4 r5 h1 h2 h3 h4 h5 l14 l5
      by (cases f1; cases f2; cases f3; cases f4; cases f5) (auto simp: outline_loop_append)
  qed
qed

lemma node_safe:
  "suppressyield \<or> headinglevel st \<noteq> [] \<Longrightarrow>
   (case outline_loop b a (fst (recursiveiterator limit entries suppressyield u)) st of
      (st', failed) \<Rightarrow> failed \<noteq> Some IndexError \<and>
        (failed = None \<and> snd (recursiveiterator limit entries suppressyield u) = None \<longrightarrow>
           length (headinglevel st') = length (headinglevel st)))"
proof (induction limit arbitrary: u st suppressyield)
  case 0
  then show ?case by simp
next
  case (Suc limit)
  show ?case
  proof (cases "entries u")
    case None
    then show ?thesis by simp
  next
    case (Some el)
    have C: "\<And>st. headinglevel st \<noteq> [] \<Longrightarrow>
     (case outline_loop b a (fst (gen_concat (map (recursiveiterator limit entries False) (childBindings el)))) st of
        (st', failed) \<Rightarrow> failed \<noteq> Some IndexError \<and>
          (failed = None \<and> snd (gen_concat (map (recursiveiterator limit entries False) (childBindings el))) = None \<longrightarrow>
             length (headinglevel st') = length (headinglevel st)))"
      by (rule children_safe) (use Suc.IH in auto)
    show ?thesis
      using wrap_safe[OF C Suc.prems, of el]
      by (simp add: Some)
  qed
qed

text \<open>The same for the loop over the element tree.\<close>

lemma outline_loop_x_append:
  "outline_loop_x b a (xs @ ys) st =
     (case outline_loop_x b a xs st of
        (st', Some e) \<Rightarrow> (st', Some e)
      | (st', None) \<Rightarrow> outline_loop_x b a ys st')"
  by (induction xs arbitrary: st) (auto split: sum.splits prod.splits)

lemma single_event_x:
  assumes "headinglevel st \<noteq> [] \<or> (ev = ''start'' \<and> tag el = ''rm_modules:childBindings'')"
  shows "case outline_loop_x b a [(ev, el)] st of
           (st', failed) \<Rightarrow> failed \<noteq> Some IndexError \<and>
             (failed = None \<longrightarrow>
                length (headinglevel st') +
                  (if tag el = ''rm_modules:childBindings'' \<and> ev = ''end'' then 1 else 0) =
                length (headinglevel st) +
                  (if tag el = ''rm_modules:childBindings'' \<and> ev = ''start'' then 1 else 0))"
  using assms
  by (auto simp: outline_step_x_def Let_def count_node_def Suc_length_butlast
      split: sum.splits option.splits if_splits)

lemma children_safe_x:
  assumes node: "\<And>c st. c \<in> set cs \<Longrightarrow> (inside \<longrightarrow> headinglevel st \<noteq> []) \<Longrightarrow>
     (case outline_loop_x b a (f c) st of
        (st', failed) \<Rightarrow> failed \<noteq> Some IndexError \<and>
          (failed = None \<longrightarrow> length (headinglevel st') = length (headinglevel st)))"
    and "inside \<longrightarrow> headinglevel st \<noteq> []"
  shows "case outline_loop_x b a (concat (map f cs)) st of
        (st', failed) \<Rightarrow> failed \<noteq> Some IndexError \<and>
          (failed = None \<longrightarrow> length (headinglevel st') = length (headinglevel st))"
  using assms
proof (induction cs arbitrary: st)
  case Nil
  then show ?case by simp
next
  case (Cons c cs)
  obtain st1 f1 where r1: "outline_loop_x b a (f c) st = (st1, f1)"
    by (cases "outline_loop_x b a (f c) st")
  have h1: "f1 \<noteq> Some IndexError"
    and l1: "f1 = None \<Longrightarrow> length (headinglevel st1) = length (headinglevel st)"
    using Cons.prems(1)[of c st] Cons.prems(2) r1 by auto
  show ?case
  proof (cases f1)
    case (Some e)
    then show ?thesis using r1 h1 by (simp add: outline_loop_x_append)
  next
    case None
    have ne: "inside \<longrightarrow> headinglevel st1 \<noteq> []"
      using l1 None Cons.prems(2) by (cases "headinglevel st1") auto
    have IH: "case outline_loop_x b a (concat (map f cs)) st1 of
        (st', failed) \<Rightarrow> failed \<noteq> Some IndexError \<and>
          (failed = None \<longrightarrow> length (headinglevel st') = length (headinglevel st1))"
      using Cons.IH[of st1] Cons.prems(1) ne by simp
    then show ?thesis using r1 None l1
      by (auto simp: outline_loop_x_append split: prod.splits)
  qed
qed

lemma node_safe_x:
  fixes T E
  defines "T \<equiv> [''rm_modules:childBindings'', ''rm_modules:Binding'']"
    and "E \<equiv> [''start'', ''end'']"
  shows "bindings_nested inside el \<Longrightarrow> (inside \<longrightarrow> headinglevel st \<noteq> []) \<Longrightarrow>
   (case outline_loop_x b a (recursiveiterator_x T E False el) st of
      (st', failed) \<Rightarrow> failed \<noteq> Some IndexError \<and>
        (failed = None \<longrightarrow> length (headinglevel st') = length (headinglevel st)))"
proof (induction el arbitrary: inside st)
  case (Element t at x cs)
  let ?el = "Element t at x cs"
  let ?in = "inside \<or> t = ''rm_modules:childBindings''"
  define pre where "pre = (if emits T E ''start'' ?el then [(''start'', ?el)] else [])"
  define mid where "mid = concat (map (recursiveiterator_x T E False) cs)"
  define post where "post = (if emits T E ''end'' ?el then [(''end'', ?el)] else [])"
  have ev: "recursiveiterator_x T E False ?el = pre @ mid @ post"
    by (simp add: pre_def mid_def post_def)
  have nested: "\<And>c. c \<in> set cs \<Longrightarrow> bindings_nested ?in c"
    and bind: "t = ''rm_modules:Binding'' \<Longrightarrow> inside"
    using Element.prems(1) by (auto simp: list_all_iff)
  \<comment> \<open>the start event\<close>
  obtain s1 f1 where r1: "outline_loop_x b a pre st = (s1, f1)"
    by (cases "outline_loop_x b a pre st")
  have h1: "f1 \<noteq> Some IndexError"
    and l1: "f1 = None \<Longrightarrow> length (headinglevel s1) =
               length (headinglevel st) + (if t = ''rm_modules:childBindings'' then 1 else 0)"
  proof -
    show "f1 \<noteq> Some IndexError"
    proof (cases "emits T E ''start'' ?el")
      case True
      then have "t = ''rm_modules:childBindings'' \<or> t = ''rm_modules:Binding''"
        by (auto simp: emits_def T_def)
      then have "headinglevel st \<noteq> [] \<or> (''start'' = ''start'' \<and> tag ?el = ''rm_modules:childBindings'')"
        using bind Element.prems(2) by auto
      from single_event_x[OF this, of b a] r1 True show ?thesis by (auto simp: pre_def)
    next
      case False
      then show ?thesis using r1 by (simp add: pre_def)
    qed
    show "length (headinglevel s1) =
               length (headinglevel st) + (if t = ''rm_modules:childBindings'' then 1 else 0)"
      if "f1 = None"
    proof (cases "emits T E ''start'' ?el")
      case True
      then have "t = ''rm_modules:childBindings'' \<or> t = ''rm_modules:Binding''"
        by (auto simp: emits_def T_def)
      then have "headinglevel st \<noteq> [] \<or> (''start'' = ''start'' \<and> tag ?el = ''rm_modules:childBindings'')"
        using bind Element.prems(2) by auto
      from single_event_x[OF this, of b a] r1 True that show ?thesis by (auto simp: pre_def)
    next
      case False
      then have "t \<noteq> ''rm_modules:childBindings''" by (auto simp: emits_def T_def E_def)
      then show ?thesis using r1 False by (simp add: pre_def)
    qed
  qed
  have ne1: "f1 = None \<Longrightarrow> ?in \<longrightarrow> headinglevel s1 \<noteq> []"
    using l1 Element.prems(2) by (cases "headinglevel s1") auto
  \<comment> \<open>the children\<close>
  obtain s2 f2 where r2: "outline_loop_x b a mid s1 = (s2, f2)"
    by (cases "outline_loop_x b a mid s1")
  have c2: "f1 = None \<Longrightarrow> f2 \<noteq> Some IndexError \<and>
        (f2 = None \<longrightarrow> length (headinglevel s2) = length (headinglevel s1))"
  proof -
    assume f1: "f1 = None"
    have "case outline_loop_x b a (concat (map (recursiveiterator_x T E False) cs)) s1 of
        (st', failed) \<Rightarrow> failed \<noteq> Some IndexError \<and>
          (failed = None \<longrightarrow> length (headinglevel st') = length (headinglevel s1))"
    proof (rule children_safe_x[where inside = ?in])
      fix c and st' :: walk_state
      assume c: "c \<in> set cs" and st': "?in \<longrightarrow> headinglevel st' \<noteq> []"
      show "case outline_loop_x b a (recursiveiterator_x T E False c) st' of
        (st'', failed) \<Rightarrow> failed \<noteq> Some IndexError \<and>
          (failed = None \<longrightarrow> length (headinglevel st'') = length (headinglevel st'))"
        by (rule Element.IH[OF c nested[OF c] st'])
    next
      show "?in \<longrightarrow> headinglevel s1 \<noteq> []" by (rule ne1[OF f1])
    qed
    then show ?thesis using r2 by (simp add: mid_def)
  qed
  \<comment> \<open>the end event\<close>
  obtain s3 f3 where r3: "outline_loop_x b a post s2 = (s3, f3)"
    by (cases "outline_loop_x b a post s2")
  have ne2: "f1 = None \<Longrightarrow> f2 = None \<Longrightarrow> ?in \<longrightarrow> headinglevel s2 \<noteq> []"
    using c2 ne1 by (cases "headinglevel s2") auto
  have c3: "f1 = None \<Longrightarrow> f2 = None \<Longrightarrow> f3 \<noteq> Some IndexError \<and>
        (f3 = None \<longrightarrow> length (headinglevel s3) + (if t = ''rm_modules:childBindings'' then 1 else 0)
            = length (headinglevel s2))"
  proof -
    assume f: "f1 = None" "f2 = None"
    show ?thesis
    proof (cases "emits T E ''end'' ?el")
      case True
      then have "t = ''rm_modules:childBindings'' \<or> t = ''rm_modules:Binding''"
        by (auto simp: emits_def T_def)
      then have "headinglevel s2 \<noteq> [] \<or> (''end'' = ''start'' \<and> tag ?el = ''rm_modules:childBindings'')"
        using bind ne2[OF f] by auto
      from single_event_x[OF this, of b a] r3 True show ?thesis by (auto simp: post_def)
    next
      case False
      then have "t \<noteq> ''rm_modules:childBindings''" by (auto simp: emits_def T_def E_def)
      then show ?thesis using r3 False by (simp add: post_def)
    qed
  qed
  show ?case
    unfolding ev using r1 r2 r3 h1 l1 c2 c3
    by (cases f1; cases f2; cases f3) (auto simp: outline_loop_x_append)
qed


text \<open>
  C10: for every table, root and recursion limit, the walk of the flat list started at the
  root yields the enter-level event of the root's children first, the loop that consumes
  it never reads or pops the empty counter stack (it never raises \<open>IndexError\<close>), and pushes
  and pops are balanced: when walk and loop end without an exception the stack is empty
  again. The same holds for the program's outline as a whole, and for the outline loop
  over an element tree in which every binding below the root lies inside a children
  container.
\<close>

theorem counter_stack_never_empty:
  "(case json_structure_walk limit rooturi entries of
      (events, stopped) \<Rightarrow>
        (events \<noteq> [] \<longrightarrow> fst (hd events) = ''startChildren'')
        \<and> (case outline_loop baseurl artifact_info events \<lparr>level = 0, headinglevel = [], printed = []\<rparr> of
             (st', failed) \<Rightarrow>
               failed \<noteq> Some IndexError
               \<and> (failed = None \<and> stopped = None \<longrightarrow> headinglevel st' = [])))
   \<and> snd (print_outline limit baseurl artifact_info structure_u modstructure_j) \<noteq> Some IndexError
   \<and> (list_all (bindings_nested False) (children modroot_x) \<longrightarrow>
        snd (print_outline_x baseurl artifact_info modroot_x) \<noteq> Some IndexError)"
proof -
  have first: "fst (recursiveiterator l entries True u) \<noteq> [] \<Longrightarrow>
      fst (hd (fst (recursiveiterator l entries True u))) = ''startChildren''" for l u entries
    by (cases l) (auto simp: gen_then_def split: option.splits)
  have safe: "case outline_loop baseurl artifact_info (fst (recursiveiterator l es True u))
                 \<lparr>level = 0, headinglevel = [], printed = []\<rparr> of
             (st', failed) \<Rightarrow>
               failed \<noteq> Some IndexError
               \<and> (failed = None \<and> snd (recursiveiterator l es True u) = None \<longrightarrow> headinglevel st' = [])"
    for l u es
    using node_safe[where suppressyield = True and b = baseurl and a = artifact_info
        and st = "\<lparr>level = 0, headinglevel = [], printed = []\<rparr>" and limit = l and entries = es and u = u]
    by (auto split: prod.splits)
  have walk: "case json_structure_walk limit rooturi entries of
      (events, stopped) \<Rightarrow>
        (events \<noteq> [] \<longrightarrow> fst (hd events) = ''startChildren'')
        \<and> (case outline_loop baseurl artifact_info events \<lparr>level = 0, headinglevel = [], printed = []\<rparr> of
             (st', failed) \<Rightarrow>
               failed \<noteq> Some IndexError
               \<and> (failed = None \<and> stopped = None \<longrightarrow> headinglevel st' = []))"
    using first[of limit entries rooturi] safe[of limit entries rooturi]
    by (auto simp: json_structure_walk_def split: prod.splits)
  have gen_ok: "snd (recursiveiterator l es s u) \<noteq> Some IndexError" for l es s u
  proof (induction l arbitrary: s u)
    case 0
    then show ?case by simp
  next
    case (Suc l)
    have cs: "snd (gen_concat (map (recursiveiterator l es False) us)) \<noteq> Some IndexError" for us
      using Suc.IH by (induction us) (auto simp: gen_then_def split: option.splits)
    show ?case using cs by (auto simp: gen_then_def split: option.splits)
  qed
  have outline: "snd (print_outline limit baseurl artifact_info structure_u modstructure_j) \<noteq> Some IndexError"
    using safe[of limit "scan_entries modstructure_j" structure_u]
      gen_ok[of limit "scan_entries modstructure_j" True structure_u]
    by (auto simp: print_outline_def json_structure_walk_def Let_def split: option.splits prod.splits)
  have tree: "snd (print_outline_x baseurl artifact_info modroot_x) \<noteq> Some IndexError"
    if wf: "list_all (bindings_nested False) (children modroot_x)"
  proof -
    let ?T = "[''rm_modules:childBindings'', ''rm_modules:Binding'']" and ?E = "[''start'', ''end'']"
    have "case outline_loop_x baseurl artifact_info
                 (concat (map (recursiveiterator_x ?T ?E False) (children modroot_x)))
                 \<lparr>level = 0, headinglevel = [], printed = []\<rparr> of
            (st', failed) \<Rightarrow> failed \<noteq> Some IndexError \<and>
              (failed = None \<longrightarrow> length (headinglevel st') =
                 length (headinglevel \<lparr>level = 0, headinglevel = [], printed = []\<rparr>))"
    proof (rule children_safe_x[where inside = False])
      fix c and st' :: walk_state
      assume "c \<in> set (children modroot_x)"
      then have "bindings_nested False c" using wf by (simp add: list_all_iff)
      then show "case outline_loop_x baseurl artifact_info (recursiveiterator_x ?T ?E False c) st' of
        (st'', failed) \<Rightarrow> failed \<noteq> Some IndexError \<and>
          (failed = None \<longrightarrow> length (headinglevel st'') = length (headinglevel st'))"
        by (rule node_safe_x) simp
    qed simp
    then show ?thesis
      by (auto simp: print_outline_x_def iterwalk1_def structure_tags_def norm_tags_def
          norm_events_def recursiveiterator_x_unfold[of _ _ True modroot_x] split: prod.splits)
  qed
  from walk outline tree show ?thesis by blast
qed

text \<open>
  C10 on the one-level table: the walk and the loop end without an exception, the first
  event is the enter-level event of the root, and the stack ends empty; and on the nested
  element tree, which is well formed: the outline ends without an exception.
\<close>

theorem counter_stack_never_empty_witness:
  "snd (json_structure_walk 5 ''s/R'' (scan_entries flat5)) = None
   \<and> fst (hd (fst (json_structure_walk 5 ''s/R'' (scan_entries flat5)))) = ''startChildren''
   \<and> snd (outline_loop ''s/'' titles (fst (json_structure_walk 5 ''s/R'' (scan_entries flat5)))
            \<lparr>level = 0, headinglevel = [], printed = []\<rparr>) = None
   \<and> headinglevel (fst (outline_loop ''s/'' titles
            (fst (json_structure_walk 5 ''s/R'' (scan_entries flat5)))
            \<lparr>level = 0, headinglevel = [], printed = []\<rparr>)) = []
   \<and> list_all (bindings_nested False) (children nested3_x)
   \<and> snd (print_outline_x ''s/'' titles nested3_x) \<noteq> Some IndexError"
proof -
  have a: "snd (json_structure_walk 5 ''s/R'' (scan_entries flat5)) = None"
    by code_simp
  have b: "fst (json_structure_walk 5 ''s/R'' (scan_entries flat5)) \<noteq> []"
    by code_simp
  have c: "snd (outline_loop ''s/'' titles (fst (json_structure_walk 5 ''s/R'' (scan_entries flat5)))
            \<lparr>level = 0, headinglevel = [], printed = []\<rparr>) = None"
    by code_simp
  have d: "list_all (bindings_nested False) (children nested3_x)"
    by (simp add: nested3_x_def hb_def)
  from counter_stack_never_empty[where limit = 5 and rooturi = "''s/R''"
      and entries = "scan_entries flat5" and baseurl = "''s/''" and artifact_info = titles
      and structure_u = "''s/R''" and modstructure_j = flat5 and modroot_x = nested3_x] a b c d
  show ?thesis by (simp add: case_prod_beta)
qed

text \<open>
  The loop over the element tree numbers the nested structure as the loop over the flat
  list does.
\<close>

lemma numbering_nested_levels_tree:
  "map row_section (fst (print_outline_x ''s/'' titles nested3_x)) = [''1'', ''1.1'', ''1.1.0-1'']
   \<and> snd (print_outline_x ''s/'' titles nested3_x) = None"
  by code_simp

end
